theory Spec2Isabelle
  imports Main
begin

section \<open>Errors\<close>

text \<open>
  Every exception of the chat subsystem is a value. \<open>HTTPException\<close> carries the status
  code only (the detail strings play no part below). \<open>RuntimeError\<close> is what a Python
  set iterator raises when the set changed size during the iteration, \<open>InvalidId\<close> is
  what \<open>bson.ObjectId\<close> raises on a malformed id, \<open>SendError\<close> stands for whatever
  \<open>websocket.send_json\<close> raises on a dead transport.
\<close>

datatype error = HTTPException nat | RuntimeError | ValueError | InvalidId | SendError

section \<open>Connection registry (utils/websocket\_manager.py)\<close>

text \<open>
  A \<open>WebSocket\<close> is reduced to whether a send on it succeeds. The frames that were
  really sent are logged, in order, as (connection id, payload) pairs. A Python set is
  the list of its elements in iteration order.
\<close>

datatype WebSocket = WebSocket (healthy: bool)

type_synonym payload = string

record ConnectionManager =
  active_connections :: "string \<rightharpoonup> WebSocket"
  chat_rooms :: "string \<rightharpoonup> string list"

type_synonym outbox = "(string \<times> payload) list"

definition send_json :: "WebSocket \<Rightarrow> payload \<Rightarrow> error + unit" where
  "send_json ws message = (if healthy ws then Inr () else Inl SendError)"

definition discard :: "string \<Rightarrow> string list \<Rightarrow> string list" where
  "discard connection_id room = removeAll connection_id room"

definition disconnect :: "ConnectionManager \<Rightarrow> string \<Rightarrow> ConnectionManager" where
  "disconnect mgr connection_id =
     (case active_connections mgr connection_id of
        None \<Rightarrow> mgr
      | Some ws \<Rightarrow>
          mgr\<lparr>active_connections := (active_connections mgr)(connection_id := None),
              chat_rooms := (\<lambda>k. map_option (discard connection_id) (chat_rooms mgr k))\<rparr>)"

definition join_chat :: "ConnectionManager \<Rightarrow> string \<Rightarrow> string \<Rightarrow> ConnectionManager" where
  "join_chat mgr chat_id connection_id =
     (let room = (case chat_rooms mgr chat_id of None \<Rightarrow> [] | Some r \<Rightarrow> r)
      in mgr\<lparr>chat_rooms := (chat_rooms mgr)(chat_id \<mapsto>
               (if connection_id \<in> set room then room else room @ [connection_id]))\<rparr>)"

definition room_size :: "ConnectionManager \<Rightarrow> string \<Rightarrow> nat" where
  "room_size mgr chat_id = (case chat_rooms mgr chat_id of None \<Rightarrow> 0 | Some r \<Rightarrow> length r)"

text \<open>
  The \<open>for connection_id in self.chat_rooms[chat_id]\<close> loop. The iterator remembers the
  size the set had when the loop started (\<open>si_used\<close>) and compares it with the set's
  current size each time the next element is asked for, also the last time, when no
  element is left; on a difference it raises \<open>RuntimeError\<close>. The fourth argument holds
  the elements not yet visited. The result is the exception that left the loop, if any,
  with the registry and the log as they are at that moment.
\<close>

fun broadcast_loop ::
  "string \<Rightarrow> payload \<Rightarrow> string option \<Rightarrow> nat \<Rightarrow> string list \<Rightarrow>
   ConnectionManager \<Rightarrow> outbox \<Rightarrow> error option \<times> ConnectionManager \<times> outbox" where
  "broadcast_loop chat_id message exclude_connection si_used [] mgr out =
     (if room_size mgr chat_id \<noteq> si_used then (Some RuntimeError, mgr, out)
      else (None, mgr, out))"
| "broadcast_loop chat_id message exclude_connection si_used (connection_id # rest) mgr out =
     (if room_size mgr chat_id \<noteq> si_used then (Some RuntimeError, mgr, out)
      else if Some connection_id \<noteq> exclude_connection then
        (case active_connections mgr connection_id of
           None \<Rightarrow> broadcast_loop chat_id message exclude_connection si_used rest mgr out
         | Some websocket \<Rightarrow>
             (case send_json websocket message of
                Inr _ \<Rightarrow> broadcast_loop chat_id message exclude_connection si_used rest mgr
                          (out @ [(connection_id, message)])
              | Inl e \<Rightarrow> broadcast_loop chat_id message exclude_connection si_used rest
                          (disconnect mgr connection_id) out))
      else broadcast_loop chat_id message exclude_connection si_used rest mgr out)"

definition broadcast_to_chat ::
  "ConnectionManager \<Rightarrow> outbox \<Rightarrow> string \<Rightarrow> payload \<Rightarrow> string option \<Rightarrow>
   error option \<times> ConnectionManager \<times> outbox" where
  "broadcast_to_chat mgr out chat_id message exclude_connection =
     (case chat_rooms mgr chat_id of
        None \<Rightarrow> (None, mgr, out)
      | Some room \<Rightarrow>
          broadcast_loop chat_id message exclude_connection (length room) room mgr out)"

text \<open>The registry of the failing scenario: room \<open>c1\<close> with two live members, the first dead.\<close>

definition two_peers :: ConnectionManager where
  "two_peers =
     \<lparr>active_connections = [''user_1'' \<mapsto> WebSocket False, ''user_2'' \<mapsto> WebSocket True],
      chat_rooms = [''c1'' \<mapsto> [''user_1'', ''user_2'']]\<rparr>"

section \<open>Identifiers\<close>

text \<open>
  User and dealer ids are \<open>Union[int, str]\<close>. MongoDB compares them with their type
  (the number 5 is not the string "5"), which is structural equality on \<open>ident\<close>;
  the handlers compare \<open>str(a) == str(b)\<close>, which is equality of \<open>py_str\<close>.
\<close>

datatype ident = IntId int | StrId string

definition digit_char :: "nat \<Rightarrow> char" where
  "digit_char d = ''0123456789'' ! d"

function str_nat :: "nat \<Rightarrow> string" where
  "str_nat n = (if n < 10 then [digit_char n] else str_nat (n div 10) @ [digit_char (n mod 10)])"
  by pat_completeness auto
termination
  by (relation "measure id") auto

declare str_nat.simps [simp del]

definition str_int :: "int \<Rightarrow> string" where
  "str_int i = (if i < 0 then CHR ''-'' # str_nat (nat (- i)) else str_nat (nat i))"

fun py_str :: "ident \<Rightarrow> string" where
  "py_str (IntId i) = str_int i"
| "py_str (StrId s) = s"

text \<open>
  \<open>bson.ObjectId(s)\<close> accepts a string of 24 hexadecimal digits and raises
  \<open>InvalidId\<close> on anything else; \<open>str\<close> of an ObjectId prints lower-case digits. An
  object id is kept as that lower-case string.
\<close>

type_synonym oid = string

definition is_hex :: "char \<Rightarrow> bool" where
  "is_hex c = (c \<in> set ''0123456789abcdefABCDEF'')"

definition lower_hex :: "char \<Rightarrow> char" where
  "lower_hex c =
     (if c = CHR ''A'' then CHR ''a'' else if c = CHR ''B'' then CHR ''b''
      else if c = CHR ''C'' then CHR ''c'' else if c = CHR ''D'' then CHR ''d''
      else if c = CHR ''E'' then CHR ''e'' else if c = CHR ''F'' then CHR ''f'' else c)"

definition ObjectId :: "string \<Rightarrow> error + oid" where
  "ObjectId s =
     (if length s = 24 \<and> list_all is_hex s then Inr (map lower_hex s) else Inl InvalidId)"

section \<open>Documents (models/chat\_models.py and the dictionaries the service writes)\<close>

text \<open>
  Time is a natural number; every \<open>datetime.utcnow()\<close> of a service call is the
  \<open>now\<close> that the call receives. The entries of \<open>read_by\<close>, \<open>delivered_to\<close>,
  \<open>deleted_for\<close> and \<open>deleted_by\<close> all are a user id, a user type and a time, and share
  one record. A field that the source reads with a default (\<open>msg.get("deleted_for", [])\<close>)
  holds that default when it is absent. An attachment is an opaque string.
\<close>

record user_stamp =
  user_id :: ident
  user_type :: string
  stamp :: nat

record reaction =
  r_user_id :: ident
  r_timestamp :: nat

record reply_ref =
  rr_message_id :: string
  rr_content :: string
  rr_sender_id :: ident

record message =
  m_id :: oid
  m_message_id :: "string option"
  m_chat_id :: string
  sender_id :: ident
  sender_type :: string
  content :: string
  message_type :: string
  timestamp :: nat
  read_by :: "user_stamp list"
  delivered_to :: "user_stamp list"
  is_deleted :: bool
  is_edited :: bool
  deleted_for :: "user_stamp list"
  deleted_at :: "nat option"
  deleted_by :: "user_stamp option"
  attachment :: "string option"
  gem_id :: "int option"
  reply_to :: "reply_ref option"
  reactions :: "string \<rightharpoonup> reaction list"

text \<open>The pydantic model \<open>ChatMessage\<close> that the handlers build and pass to \<open>add_message\<close>.\<close>

record ChatMessage =
  cm_chat_id :: string
  cm_sender_id :: ident
  cm_sender_type :: string
  cm_content :: string
  cm_message_type :: string
  cm_gem_id :: "int option"
  cm_attachment :: "string option"
  cm_reply_to :: "reply_ref option"

record participant =
  p_id :: ident
  p_type :: string
  p_role :: string
  p_joined_at :: nat
  p_permissions :: "string list option"

record admin =
  a_id :: ident
  a_type :: string
  a_role :: string
  a_added_by :: "ident option"
  a_added_at :: "nat option"
  a_permissions :: "string list"

record removal =
  rm_chat_id :: string
  rm_user_id :: ident
  rm_removed_by :: "ident option"
  rm_is_leaving :: bool
  rm_reason :: "string option"
  rm_removed_at :: nat

record last_message_doc =
  lm_message_id :: string
  lm_content :: string
  lm_sender_id :: string
  lm_sender_type :: string
  lm_timestamp :: nat
  lm_message_type :: string

text \<open>
  A chat room: \<open>c_id\<close> is the primary \<open>_id\<close>, \<open>c_chat_id\<close> the secondary \<open>chat_id\<close>
  field, \<open>group_admins\<close> is \<open>settings.group_admins\<close>.
\<close>

record chat =
  c_id :: oid
  c_chat_id :: "string option"
  chat_type :: string
  participants :: "participant list"
  group_admins :: "admin list"
  unread_counts :: "string \<rightharpoonup> int"
  removed_members :: "removal list"
  last_message :: "last_message_doc option"
  last_activity :: nat

record invite =
  code :: string
  i_chat_id :: string
  creator_id :: ident
  created_at :: nat
  expires_at :: nat
  is_active :: bool
  used_by :: "ident option"
  used_at :: "nat option"

text \<open>The collections, each in its natural (insertion) order.\<close>

record store =
  chat_collection :: "chat list"
  message_collection :: "message list"
  invite_collection :: "invite list"
  removed_members_collection :: "removal list"

section \<open>The store operations the service uses\<close>

text \<open>
  \<open>find_one\<close> returns the first document that matches, \<open>update_one\<close> changes the first
  document that matches and no other, \<open>update_many\<close> changes every document that matches;
  \<open>modified_count\<close> of an \<open>update_one\<close> is 1 when that document really changed.
  \<open>$addToSet\<close> appends a value unless an equal one is in the array.
\<close>

definition find_one :: "('a \<Rightarrow> bool) \<Rightarrow> 'a list \<Rightarrow> 'a option" where
  "find_one P xs = List.find P xs"

fun update_one :: "('a \<Rightarrow> bool) \<Rightarrow> ('a \<Rightarrow> 'a) \<Rightarrow> 'a list \<Rightarrow> 'a list" where
  "update_one P f [] = []"
| "update_one P f (x # xs) = (if P x then f x # xs else x # update_one P f xs)"

definition modified_count :: "('a \<Rightarrow> bool) \<Rightarrow> ('a \<Rightarrow> 'a) \<Rightarrow> 'a list \<Rightarrow> nat" where
  "modified_count P f xs =
     (case find_one P xs of None \<Rightarrow> 0 | Some x \<Rightarrow> if f x = x then 0 else 1)"

definition update_many :: "('a \<Rightarrow> bool) \<Rightarrow> ('a \<Rightarrow> 'a) \<Rightarrow> 'a list \<Rightarrow> 'a list" where
  "update_many P f xs = map (\<lambda>x. if P x then f x else x) xs"

definition addToSet :: "'a \<Rightarrow> 'a list \<Rightarrow> 'a list" where
  "addToSet x xs = (if x \<in> set xs then xs else xs @ [x])"

definition participant_key :: "string \<Rightarrow> ident \<Rightarrow> string" where
  "participant_key utype uid = utype @ ''_'' @ py_str uid"

section \<open>ChatService: messages (routers/chat/chat\_service.py)\<close>

definition get_message :: "store \<Rightarrow> string \<Rightarrow> message option" where
  "get_message s message_id =
     (case ObjectId message_id of
        Inl e \<Rightarrow> None
      | Inr k \<Rightarrow> find_one (\<lambda>m. m_id m = k) (message_collection s))"

text \<open>
  \<open>add_message\<close> builds the stored dictionary from a fixed list of keys; \<open>new_id\<close> is
  the \<open>_id\<close> that the insert assigns. A failure of the chat update, after the insert,
  leaves the message in the collection and raises status 500. The dictionary that is
  returned holds under \<open>_id\<close> the bson ObjectId itself
  (\<open>message_dict["_id"] = result.inserted_id\<close>), where \<open>get_message\<close> puts its text
  there; \<open>id_value\<close> keeps the two apart. FastAPI's \<open>jsonable_encoder\<close> has no encoder
  for a bson ObjectId and raises \<open>ValueError\<close> on a dictionary that holds one.
\<close>

datatype id_value = id_text string | id_bson oid

definition jsonable_encoder :: "id_value \<times> message \<Rightarrow> error + message" where
  "jsonable_encoder d =
     (case fst d of id_bson k \<Rightarrow> Inl ValueError | id_text t \<Rightarrow> Inr (snd d))"

definition message_dict :: "ChatMessage \<Rightarrow> nat \<Rightarrow> oid \<Rightarrow> message" where
  "message_dict message current_time new_id =
     \<lparr>m_id = new_id, m_message_id = None,
      m_chat_id = cm_chat_id message,
      sender_id = StrId (py_str (cm_sender_id message)),
      sender_type = cm_sender_type message,
      content = cm_content message,
      message_type = cm_message_type message,
      timestamp = current_time,
      read_by = [\<lparr>user_id = StrId (py_str (cm_sender_id message)),
                  user_type = cm_sender_type message, stamp = current_time\<rparr>],
      delivered_to = [],
      is_deleted = False,
      is_edited = False,
      deleted_for = [], deleted_at = None, deleted_by = None,
      attachment = None, gem_id = None, reply_to = None,
      reactions = Map.empty\<rparr>"

definition add_message ::
  "store \<Rightarrow> nat \<Rightarrow> oid \<Rightarrow> ChatMessage \<Rightarrow> (error + id_value \<times> message) \<times> store" where
  "add_message s current_time new_id message =
     (let doc = message_dict message current_time new_id;
          s1 = s\<lparr>message_collection := message_collection s @ [doc]\<rparr>
      in case ObjectId (cm_chat_id message) of
           Inl e \<Rightarrow> (Inl (HTTPException 500), s1)
         | Inr k \<Rightarrow>
             (Inr (id_bson new_id, doc),
              s1\<lparr>chat_collection :=
                    update_one (\<lambda>c. c_id c = k)
                      (\<lambda>c. c\<lparr>last_message :=
                                 Some \<lparr>lm_message_id = new_id,
                                       lm_content = cm_content message,
                                       lm_sender_id = py_str (cm_sender_id message),
                                       lm_sender_type = cm_sender_type message,
                                       lm_timestamp = current_time,
                                       lm_message_type = cm_message_type message\<rparr>,
                               last_activity := current_time\<rparr>)
                      (chat_collection s1)\<rparr>))"

text \<open>
  \<open>delete_message\<close>: the filter is the \<open>$or\<close> of three clauses, the third of which is
  \<open>{"chat_id": message["chat_id"]}\<close>.
\<close>

definition delete_query :: "message \<Rightarrow> message \<Rightarrow> bool" where
  "delete_query message m =
     (m_id m = m_id message \<or> m_message_id m = Some (m_id message) \<or>
      m_chat_id m = m_chat_id message)"

definition delete_update :: "ident \<Rightarrow> string \<Rightarrow> bool \<Rightarrow> nat \<Rightarrow> message \<Rightarrow> message" where
  "delete_update uid utype delete_for_everyone now m =
     (if delete_for_everyone then
        m\<lparr>is_deleted := True,
          content := ''This message was deleted'',
          deleted_at := Some now,
          deleted_by := Some \<lparr>user_id = uid, user_type = utype, stamp = now\<rparr>,
          attachment := None\<rparr>
      else
        m\<lparr>deleted_for :=
            addToSet \<lparr>user_id = uid, user_type = utype, stamp = now\<rparr> (deleted_for m)\<rparr>)"

definition delete_message :: "store \<Rightarrow> nat \<Rightarrow> string \<Rightarrow> ident \<Rightarrow> string \<Rightarrow> bool \<Rightarrow> bool \<times> store" where
  "delete_message s now message_id uid utype delete_for_everyone =
     (case get_message s message_id of
        None \<Rightarrow> (False, s)
      | Some message \<Rightarrow>
          (0 < modified_count (delete_query message)
                 (delete_update uid utype delete_for_everyone now) (message_collection s),
           s\<lparr>message_collection :=
               update_one (delete_query message)
                 (delete_update uid utype delete_for_everyone now) (message_collection s)\<rparr>))"

text \<open>
  \<open>get_chat_messages\<close>: the messages of the chat that the viewer has not deleted for
  themselves, newest first, at most \<open>limit\<close> of them (\<open>limit\<close> is at least 1 on the
  route; the order among equal timestamps is not fixed by the store).
\<close>

record processed_msg =
  pm_message_id :: string
  pm_chat_id :: string
  pm_sender_id :: ident
  pm_sender_type :: string
  pm_content :: string
  pm_message_type :: string
  pm_timestamp :: nat
  pm_read_by :: "user_stamp list"
  pm_delivered_to :: "user_stamp list"
  pm_reactions :: "string \<rightharpoonup> reaction list"
  pm_is_edited :: bool
  pm_reply_to :: "reply_ref option"
  pm_attachment :: "string option"
  pm_gem_id :: "int option"

fun oid_less :: "string \<Rightarrow> string \<Rightarrow> bool" where
  "oid_less [] [] = False"
| "oid_less [] (y # ys) = True"
| "oid_less (x # xs) [] = False"
| "oid_less (x # xs) (y # ys) =
     ((of_char x :: nat) < of_char y \<or> (x = y \<and> oid_less xs ys))"

definition not_deleted_for :: "ident \<Rightarrow> string \<Rightarrow> message \<Rightarrow> bool" where
  "not_deleted_for uid utype m =
     (\<not> list_ex (\<lambda>d. user_id d = uid \<and> user_type d = utype) (deleted_for m))"

definition messages_query :: "string \<Rightarrow> ident \<Rightarrow> string \<Rightarrow> string option \<Rightarrow> message \<Rightarrow> bool" where
  "messages_query chat_id uid utype before_id m =
     (m_chat_id m = chat_id \<and> not_deleted_for uid utype m \<and>
      (case before_id of
         None \<Rightarrow> True
       | Some b \<Rightarrow> (if b = [] then True
                   else case ObjectId b of Inl e \<Rightarrow> True | Inr k \<Rightarrow> oid_less (m_id m) k)))"

definition process_msg :: "message \<Rightarrow> processed_msg" where
  "process_msg msg =
     \<lparr>pm_message_id = m_id msg,
      pm_chat_id = m_chat_id msg,
      pm_sender_id = sender_id msg,
      pm_sender_type = sender_type msg,
      pm_content = (if is_deleted msg then ''This message was deleted'' else content msg),
      pm_message_type = message_type msg,
      pm_timestamp = timestamp msg,
      pm_read_by = read_by msg,
      pm_delivered_to = delivered_to msg,
      pm_reactions = reactions msg,
      pm_is_edited = is_edited msg,
      pm_reply_to = reply_to msg,
      pm_attachment = (if is_deleted msg then None else attachment msg),
      pm_gem_id = (if is_deleted msg then None else gem_id msg)\<rparr>"

definition get_chat_messages ::
  "store \<Rightarrow> string \<Rightarrow> ident \<Rightarrow> string \<Rightarrow> nat \<Rightarrow> string option \<Rightarrow> processed_msg list" where
  "get_chat_messages s chat_id uid utype limit before_id =
     map process_msg
       (take limit
          (rev (sort_key timestamp
             (filter (messages_query chat_id uid utype before_id) (message_collection s)))))"

text \<open>\<open>mark_as_read\<close>: the message update, then the reset of the counter on the chat.\<close>

definition read_query :: "string \<Rightarrow> ident \<Rightarrow> message \<Rightarrow> bool" where
  "read_query chat_id uid m =
     (m_chat_id m = chat_id \<and> sender_id m \<noteq> uid \<and>
      \<not> list_ex (\<lambda>r. user_id r = uid) (read_by m))"

definition read_update :: "ident \<Rightarrow> string \<Rightarrow> nat \<Rightarrow> message \<Rightarrow> message" where
  "read_update uid utype now m =
     m\<lparr>read_by := addToSet \<lparr>user_id = uid, user_type = utype, stamp = now\<rparr> (read_by m)\<rparr>"

definition reset_unread :: "string \<Rightarrow> ident \<Rightarrow> chat \<Rightarrow> chat" where
  "reset_unread utype uid c =
     c\<lparr>unread_counts := (unread_counts c)(participant_key utype uid \<mapsto> 0)\<rparr>"

definition mark_as_read :: "store \<Rightarrow> nat \<Rightarrow> string \<Rightarrow> ident \<Rightarrow> string \<Rightarrow> bool \<times> store" where
  "mark_as_read s now chat_id uid utype =
     (let s1 = s\<lparr>message_collection :=
                   update_many (read_query chat_id uid) (read_update uid utype now)
                     (message_collection s)\<rparr>
      in case ObjectId chat_id of
           Inl e \<Rightarrow> (False, s1)
         | Inr k \<Rightarrow>
             (True, s1\<lparr>chat_collection :=
                         update_one (\<lambda>c. c_id c = k) (reset_unread utype uid)
                           (chat_collection s1)\<rparr>))"




definition chat_or_query :: "oid \<Rightarrow> string \<Rightarrow> chat \<Rightarrow> bool" where
  "chat_or_query k chat_id c = (c_id c = k \<or> c_chat_id c = Some chat_id)"


text \<open>
  \<open>toggle_message_reaction\<close> reads the message, changes the list under the emoji and
  writes the whole mapping back.
\<close>

definition reactions_get :: "(string \<rightharpoonup> reaction list) \<Rightarrow> string \<Rightarrow> reaction list" where
  "reactions_get reacts emoji = (case reacts emoji of None \<Rightarrow> [] | Some l \<Rightarrow> l)"

definition toggle_reactions ::
  "(string \<rightharpoonup> reaction list) \<Rightarrow> ident \<Rightarrow> string \<Rightarrow> nat \<Rightarrow> (string \<rightharpoonup> reaction list)" where
  "toggle_reactions reacts uid emoji now =
     (let emoji_reactions = reactions_get reacts emoji;
          emoji_reactions' =
            (case List.find (\<lambda>r. r_user_id r = uid) emoji_reactions of
               Some existing_reaction \<Rightarrow> remove1 existing_reaction emoji_reactions
             | None \<Rightarrow> emoji_reactions @ [\<lparr>r_user_id = uid, r_timestamp = now\<rparr>])
      in if emoji_reactions' \<noteq> [] then reacts(emoji \<mapsto> emoji_reactions')
         else reacts(emoji := None))"

definition toggle_message_reaction ::
  "store \<Rightarrow> nat \<Rightarrow> string \<Rightarrow> ident \<Rightarrow> string \<Rightarrow>
   (error + (string \<rightharpoonup> reaction list)) \<times> store" where
  "toggle_message_reaction s now message_id uid emoji =
     (case get_message s message_id of
        None \<Rightarrow> (Inl ValueError, s)
      | Some message \<Rightarrow>
          (let reacts = toggle_reactions (reactions message) uid emoji now
           in case ObjectId message_id of
                Inl e \<Rightarrow> (Inl ValueError, s)
              | Inr k \<Rightarrow>
                  (Inr reacts,
                   s\<lparr>message_collection :=
                       update_one (\<lambda>m. m_id m = k) (\<lambda>m. m\<lparr>reactions := reacts\<rparr>)
                         (message_collection s)\<rparr>)))"

section \<open>ChatService: chats, admins, invites, members\<close>

text \<open>
  \<open>get_chat\<close> looks for the secondary \<open>chat_id\<close> first and for the primary id second;
  \<open>get_chat_details\<close> parses the id before it queries, so a malformed id gives
  \<open>None\<close> there even when the secondary id would match.
\<close>

definition get_chat :: "store \<Rightarrow> string \<Rightarrow> chat option" where
  "get_chat s chat_id =
     (case find_one (\<lambda>c. c_chat_id c = Some chat_id) (chat_collection s) of
        Some c \<Rightarrow> Some c
      | None \<Rightarrow>
          (case ObjectId chat_id of
             Inl e \<Rightarrow> None
           | Inr k \<Rightarrow> find_one (\<lambda>c. c_id c = k) (chat_collection s)))"

definition get_chat_details :: "store \<Rightarrow> string \<Rightarrow> chat option" where
  "get_chat_details s chat_id =
     (case ObjectId chat_id of
        Inl e \<Rightarrow> None
      | Inr k \<Rightarrow> find_one (chat_or_query k chat_id) (chat_collection s))"

definition is_participant :: "chat \<Rightarrow> ident \<Rightarrow> bool" where
  "is_participant c uid = list_ex (\<lambda>p. py_str (p_id p) = py_str uid) (participants c)"

definition get_participant_type :: "store \<Rightarrow> string \<Rightarrow> ident \<Rightarrow> error + string" where
  "get_participant_type s chat_id uid =
     (case get_chat_details s chat_id of
        None \<Rightarrow> Inl (HTTPException 404)
      | Some c \<Rightarrow>
          (case List.find (\<lambda>p. py_str (p_id p) = py_str uid) (participants c) of
             Some p \<Rightarrow> Inr (p_type p)
           | None \<Rightarrow> Inl (HTTPException 403)))"

definition is_group_admin :: "store \<Rightarrow> string \<Rightarrow> ident \<Rightarrow> error + bool" where
  "is_group_admin s chat_id uid =
     (case ObjectId chat_id of
        Inl e \<Rightarrow> Inl e
      | Inr k \<Rightarrow>
          Inr (find_one (\<lambda>c. c_id c = k \<and>
                             list_ex (\<lambda>a. a_id a = uid \<and> a_role a = ''admin'') (group_admins c))
                 (chat_collection s) \<noteq> None))"

definition get_other_admins :: "store \<Rightarrow> string \<Rightarrow> ident \<Rightarrow> admin list" where
  "get_other_admins s chat_id current_admin_id =
     (case get_chat s chat_id of
        None \<Rightarrow> []
      | Some c \<Rightarrow> filter (\<lambda>a. py_str (a_id a) \<noteq> py_str current_admin_id) (group_admins c))"

text \<open>
  \<open>update_group_admins\<close> of the service. Any exception inside is raised again as
  \<open>ValueError\<close>.
\<close>

record admins_result =
  success :: bool
  total_admins :: nat
  newly_added :: nat
  admin_ids :: "ident list"

definition new_admin :: "ident \<Rightarrow> ident \<Rightarrow> nat \<Rightarrow> admin" where
  "new_admin admin_id current_user_id now =
     \<lparr>a_id = admin_id, a_type = ''user'', a_role = ''admin'',
      a_added_by = Some current_user_id, a_added_at = Some now,
      a_permissions = [''invite'', ''add_members'', ''remove_members'', ''manage_settings'']\<rparr>"

definition update_group_admins ::
  "store \<Rightarrow> nat \<Rightarrow> string \<Rightarrow> ident list \<Rightarrow> ident \<Rightarrow> (error + admins_result) \<times> store" where
  "update_group_admins s now chat_id admin_ids0 current_user_id =
     (case ObjectId chat_id of
        Inl e \<Rightarrow> (Inl ValueError, s)
      | Inr k \<Rightarrow>
          (case find_one (\<lambda>c. c_id c = k) (chat_collection s) of
             None \<Rightarrow> (Inl ValueError, s)
           | Some c \<Rightarrow>
               (let current_admins = group_admins c;
                    current_admin_ids = map a_id current_admins;
                    admin_ids =
                      (if current_user_id \<notin> set admin_ids0 \<and>
                          current_user_id \<in> set current_admin_ids
                       then admin_ids0 @ [current_user_id] else admin_ids0);
                    new_admins =
                      map (\<lambda>i. new_admin i current_user_id now)
                        (filter (\<lambda>i. i \<notin> set current_admin_ids) admin_ids);
                    updated_admins = current_admins @ new_admins
                in (Inr \<lparr>success =
                           (0 < modified_count (\<lambda>c. c_id c = k)
                                  (\<lambda>c. c\<lparr>group_admins := updated_admins\<rparr>) (chat_collection s)),
                         total_admins = length updated_admins,
                         newly_added = length new_admins,
                         admin_ids = map a_id updated_admins\<rparr>,
                    s\<lparr>chat_collection :=
                        update_one (\<lambda>c. c_id c = k) (\<lambda>c. c\<lparr>group_admins := updated_admins\<rparr>)
                          (chat_collection s)\<rparr>))))"

definition get_invite :: "store \<Rightarrow> nat \<Rightarrow> string \<Rightarrow> invite option" where
  "get_invite s now invite_code =
     find_one (\<lambda>i. code i = invite_code \<and> is_active i \<and> now < expires_at i)
       (invite_collection s)"

definition add_chat_participant ::
  "store \<Rightarrow> nat \<Rightarrow> string \<Rightarrow> ident \<Rightarrow> string \<Rightarrow> string \<Rightarrow> bool \<times> store" where
  "add_chat_participant s now chat_id uid utype role =
     (case ObjectId chat_id of
        Inl e \<Rightarrow> (False, s)
      | Inr k \<Rightarrow>
          (let upd = (\<lambda>c. c\<lparr>participants :=
                              addToSet \<lparr>p_id = uid, p_type = utype, p_role = role,
                                        p_joined_at = now, p_permissions = None\<rparr>
                                (participants c)\<rparr>)
           in (0 < modified_count (\<lambda>c. c_id c = k) upd (chat_collection s),
               s\<lparr>chat_collection := update_one (\<lambda>c. c_id c = k) upd (chat_collection s)\<rparr>)))"

definition mark_invite_used :: "store \<Rightarrow> nat \<Rightarrow> string \<Rightarrow> ident \<Rightarrow> bool \<times> store" where
  "mark_invite_used s now invite_code uid =
     (let upd = (\<lambda>i. i\<lparr>is_active := False, used_by := Some uid, used_at := Some now\<rparr>)
      in (0 < modified_count (\<lambda>i. code i = invite_code) upd (invite_collection s),
          s\<lparr>invite_collection :=
              update_one (\<lambda>i. code i = invite_code) upd (invite_collection s)\<rparr>))"

text \<open>
  \<open>remove_group_member\<close>: the audit record is inserted first; the chat update pulls
  every participant with that id and pushes the record. A malformed chat id raises after
  the insert and the method returns \<open>False\<close>.
\<close>

definition remove_group_member ::
  "store \<Rightarrow> nat \<Rightarrow> string \<Rightarrow> ident \<Rightarrow> ident option \<Rightarrow> bool \<Rightarrow> string option \<Rightarrow> bool \<times> store" where
  "remove_group_member s now chat_id uid removed_by is_leaving reason =
     (let removal_data = \<lparr>rm_chat_id = chat_id, rm_user_id = uid, rm_removed_by = removed_by,
                          rm_is_leaving = is_leaving, rm_reason = reason, rm_removed_at = now\<rparr>;
          s1 = s\<lparr>removed_members_collection := removed_members_collection s @ [removal_data]\<rparr>
      in case ObjectId chat_id of
           Inl e \<Rightarrow> (False, s1)
         | Inr k \<Rightarrow>
             (let upd = (\<lambda>c. c\<lparr>participants := filter (\<lambda>p. p_id p \<noteq> uid) (participants c),
                               removed_members := removed_members c @ [removal_data]\<rparr>)
              in (0 < modified_count (\<lambda>c. c_id c = k) upd (chat_collection s1),
                  s1\<lparr>chat_collection := update_one (\<lambda>c. c_id c = k) upd (chat_collection s1)\<rparr>)))"

section \<open>The HTTP handlers (routers/chat/chat.py)\<close>

text \<open>
  Each handler returns its response, or the \<open>HTTPException\<close> it raises, together with
  the store it leaves. The handlers end with a broadcast on the router module's own
  \<open>ConnectionManager\<close>; no code path registers a connection or a room on that instance,
  so the broadcast finds no room and does nothing, and it is left out here.
\<close>

text \<open>
  A handler whose \<open>try\<close> has the single clause \<open>except Exception as e: raise
  HTTPException(status_code=500, ...)\<close>: whatever its body raises, an \<open>HTTPException\<close>
  of the body included, reaches the caller as status 500.
\<close>

definition except_Exception :: "(error + 'a) \<times> store \<Rightarrow> (error + 'a) \<times> store" where
  "except_Exception outcome =
     (case outcome of
        (Inl e, s) \<Rightarrow> (Inl (HTTPException 500), s)
      | (Inr v, s) \<Rightarrow> (Inr v, s))"

text \<open>\<open>delete_message\<close> (DELETE /messages/\{message\_id\}).\<close>

definition route_delete_message ::
  "store \<Rightarrow> nat \<Rightarrow> string \<Rightarrow> bool \<Rightarrow> ident \<Rightarrow> (error + bool) \<times> store" where
  "route_delete_message s now message_id delete_for_everyone current_user =
     (case get_message s message_id of
        None \<Rightarrow> (Inl (HTTPException 404), s)
      | Some message \<Rightarrow>
          (case get_chat_details s (m_chat_id message) of
             None \<Rightarrow> (Inl (HTTPException 404), s)
           | Some c \<Rightarrow>
               if \<not> is_participant c current_user then (Inl (HTTPException 403), s)
               else if delete_for_everyone \<and>
                       py_str (sender_id message) \<noteq> py_str current_user
               then (Inl (HTTPException 403), s)
               else
                 (case get_participant_type s (m_chat_id message) current_user of
                    Inl e \<Rightarrow> (Inl e, s)
                  | Inr utype \<Rightarrow>
                      (case delete_message s now (m_id message) current_user utype
                              delete_for_everyone of
                         (ok, s') \<Rightarrow>
                           if \<not> ok then (Inl (HTTPException 400), s')
                           else (Inr delete_for_everyone, s')))))"


text \<open>
  \<open>update_group_admins\<close> (PUT /group/\{chat\_id\}/admins). \<open>list(set(ids))\<close> removes the
  duplicates; Python does not fix the order of the result, and nothing below depends
  on it. Every exception of the service call becomes status 500.
\<close>

definition py_list_of_set :: "ident list \<Rightarrow> ident list" where
  "py_list_of_set ids = remdups ids"

definition route_update_group_admins ::
  "store \<Rightarrow> nat \<Rightarrow> string \<Rightarrow> ident list \<Rightarrow> ident \<Rightarrow> (error + admins_result) \<times> store" where
  "route_update_group_admins s now chat_id request_admin_ids current_user =
     (case get_chat s chat_id of
        None \<Rightarrow> (Inl (HTTPException 404), s)
      | Some c \<Rightarrow>
          if chat_type c \<noteq> ''group_chat'' then (Inl (HTTPException 400), s)
          else
            (case is_group_admin s chat_id current_user of
               Inl e \<Rightarrow> (Inl (HTTPException 500), s)
             | Inr is_admin \<Rightarrow>
                 if \<not> is_admin then (Inl (HTTPException 403), s)
                 else if request_admin_ids = [] then (Inl (HTTPException 400), s)
                 else if filter (\<lambda>i. py_str i \<notin> set (map (\<lambda>p. py_str (p_id p)) (participants c)))
                           request_admin_ids \<noteq> []
                 then (Inl (HTTPException 400), s)
                 else
                   (let ids = (if current_user \<notin> set request_admin_ids
                               then request_admin_ids @ [current_user] else request_admin_ids)
                    in case update_group_admins s now chat_id (py_list_of_set ids) current_user of
                         (Inl e, s') \<Rightarrow> (Inl (HTTPException 500), s')
                       | (Inr result, s') \<Rightarrow> (Inr result, s'))))"

text \<open>
  \<open>join_group_via_invite\<close> (POST /join/\{invite\_code\}). \<open>t_get\<close> is the time at which
  the invite is looked up, \<open>t_check\<close> the time of the handler's own expiry test,
  \<open>t_add\<close> and \<open>t_mark\<close> the times of the two store updates. The two updates are
  two calls of the service, one after the other; the store between them is the one
  that \<open>add_chat_participant\<close> returns.
\<close>

datatype join_response = already_member nat | joined nat

definition route_join_group_via_invite ::
  "store \<Rightarrow> nat \<Rightarrow> nat \<Rightarrow> nat \<Rightarrow> nat \<Rightarrow> string \<Rightarrow> ident \<Rightarrow> (error + join_response) \<times> store" where
  "route_join_group_via_invite s t_get t_check t_add t_mark invite_code current_user =
     (case get_invite s t_get invite_code of
        None \<Rightarrow> (Inl (HTTPException 404), s)
      | Some invite_doc \<Rightarrow>
          if expires_at invite_doc < t_check then (Inl (HTTPException 400), s)
          else
            (case get_chat s (i_chat_id invite_doc) of
               None \<Rightarrow> (Inl (HTTPException 404), s)
             | Some c \<Rightarrow>
                 if is_participant c current_user
                 then (Inr (already_member (length (participants c))), s)
                 else
                   (let s1 = snd (add_chat_participant s t_add (i_chat_id invite_doc) current_user
                                    ''user'' ''member'');
                        s2 = snd (mark_invite_used s1 t_mark invite_code current_user)
                    in (Inr (joined (length (participants c) + 1)), s2))))"

text \<open>
  \<open>reply_to_message\<close> (POST /\{chat\_id\}/messages/\{message\_id\}/reply):
  \<open>reply_to_message_try\<close> is the body of its \<open>try\<close>, and the handler has the single
  \<open>except Exception\<close> clause. After \<open>add_message\<close> the body passes the returned
  dictionary to \<open>jsonable_encoder\<close>, once for the broadcast and once for the response.
\<close>

record ReplyMessageRequest =
  rq_content :: string
  rq_message_type :: string
  rq_attachment :: "string option"
  rq_gem_id :: "int option"

definition reply_to_message_try ::
  "store \<Rightarrow> nat \<Rightarrow> oid \<Rightarrow> string \<Rightarrow> string \<Rightarrow> ReplyMessageRequest \<Rightarrow> ident \<Rightarrow>
   (error + message) \<times> store" where
  "reply_to_message_try s now new_id chat_id message_id request current_user =
     (case get_message s message_id of
        None \<Rightarrow> (Inl (HTTPException 404), s)
      | Some original_message \<Rightarrow>
          (case get_participant_type s chat_id current_user of
             Inl e \<Rightarrow> (Inl e, s)
           | Inr stype \<Rightarrow>
               (case add_message s now new_id
                       \<lparr>cm_chat_id = chat_id, cm_sender_id = current_user,
                        cm_sender_type = stype,
                        cm_content = rq_content request,
                        cm_message_type = rq_message_type request,
                        cm_gem_id = rq_gem_id request,
                        cm_attachment = rq_attachment request,
                        cm_reply_to = Some \<lparr>rr_message_id = message_id,
                                            rr_content = content original_message,
                                            rr_sender_id = sender_id original_message\<rparr>\<rparr> of
                  (Inl e, s') \<Rightarrow> (Inl e, s')
                | (Inr result, s') \<Rightarrow>
                    (case jsonable_encoder result of
                       Inl e \<Rightarrow> (Inl e, s')
                     | Inr broadcast_payload \<Rightarrow>
                         (case jsonable_encoder result of
                            Inl e \<Rightarrow> (Inl e, s')
                          | Inr response \<Rightarrow> (Inr response, s'))))))"

definition route_reply_to_message ::
  "store \<Rightarrow> nat \<Rightarrow> oid \<Rightarrow> string \<Rightarrow> string \<Rightarrow> ReplyMessageRequest \<Rightarrow> ident \<Rightarrow>
   (error + message) \<times> store" where
  "route_reply_to_message s now new_id chat_id message_id request current_user =
     except_Exception (reply_to_message_try s now new_id chat_id message_id request current_user)"

text \<open>
  \<open>mark_chat_as_read\<close> (POST /\{chat\_id\}/read): \<open>mark_chat_as_read_try\<close> is the body
  of its \<open>try\<close>; it calls \<open>mark_as_read\<close> with the caller's numeric user id and then
  resets the counter once more, on the chat found by primary or secondary id. The handler
  has the single \<open>except Exception\<close> clause.
\<close>

definition mark_chat_as_read_try ::
  "store \<Rightarrow> nat \<Rightarrow> string \<Rightarrow> ident \<Rightarrow> (error + unit) \<times> store" where
  "mark_chat_as_read_try s now chat_id current_user =
     (case get_participant_type s chat_id current_user of
        Inl e \<Rightarrow> (Inl e, s)
      | Inr utype \<Rightarrow>
          (let s1 = snd (mark_as_read s now chat_id current_user utype)
           in case ObjectId chat_id of
                Inl e \<Rightarrow> (Inl e, s1)
              | Inr k \<Rightarrow>
                  (Inr (),
                   s1\<lparr>chat_collection :=
                        update_one (chat_or_query k chat_id) (reset_unread utype current_user)
                          (chat_collection s1)\<rparr>)))"

definition route_mark_chat_as_read ::
  "store \<Rightarrow> nat \<Rightarrow> string \<Rightarrow> ident \<Rightarrow> (error + unit) \<times> store" where
  "route_mark_chat_as_read s now chat_id current_user =
     except_Exception (mark_chat_as_read_try s now chat_id current_user)"

text \<open>
  \<open>leave_group\<close> (POST /group/\{chat\_id\}/leave): \<open>leave_group_try\<close> is the body of
  its \<open>try\<close>, in which the sole-admin test raises status 400, and the handler has the
  single \<open>except Exception\<close> clause.
\<close>

definition leave_group_try ::
  "store \<Rightarrow> nat \<Rightarrow> string \<Rightarrow> string option \<Rightarrow> ident \<Rightarrow> (error + unit) \<times> store" where
  "leave_group_try s now chat_id reason current_user =
     (case is_group_admin s chat_id current_user of
        Inl e \<Rightarrow> (Inl e, s)
      | Inr is_admin \<Rightarrow>
          if is_admin \<and> get_other_admins s chat_id current_user = []
          then (Inl (HTTPException 400), s)
          else (Inr (), snd (remove_group_member s now chat_id current_user None True reason)))"

definition route_leave_group ::
  "store \<Rightarrow> nat \<Rightarrow> string \<Rightarrow> string option \<Rightarrow> ident \<Rightarrow> (error + unit) \<times> store" where
  "route_leave_group s now chat_id reason current_user =
     except_Exception (leave_group_try s now chat_id reason current_user)"

section \<open>Scenarios\<close>

text \<open>
  One chat with the participants user 1 and user 2 and two messages: the first sent by
  user 2, the second, with an attachment, by user 1. Messages store the sender id as a
  string, as \<open>add_message\<close> writes it. A chat carries, beside its \<open>_id\<close>, the
  \<open>chat_id\<close> that the \<open>ChatRoom\<close> model generated for it.
\<close>

definition chat_A :: string where
  "chat_A = ''aaaaaaaaaaaaaaaaaaaaaaaa''"

definition alias_A :: string where
  "alias_A = ''aaaaaaaaaaaaaaaaaaaaaa00''"

definition msg_1 :: string where
  "msg_1 = ''000000000000000000000001''"

definition msg_2 :: string where
  "msg_2 = ''000000000000000000000002''"

definition member :: "int \<Rightarrow> participant" where
  "member i = \<lparr>p_id = IntId i, p_type = ''user'', p_role = ''member'', p_joined_at = 0,
               p_permissions = Some []\<rparr>"

definition plain_message :: "string \<Rightarrow> string \<Rightarrow> string \<Rightarrow> string \<Rightarrow> nat \<Rightarrow> message" where
  "plain_message k chat_id sender text t =
     \<lparr>m_id = k, m_message_id = None, m_chat_id = chat_id, sender_id = StrId sender,
      sender_type = ''user'', content = text, message_type = ''text'', timestamp = t,
      read_by = [\<lparr>user_id = StrId sender, user_type = ''user'', stamp = t\<rparr>],
      delivered_to = [], is_deleted = False, is_edited = False, deleted_for = [],
      deleted_at = None, deleted_by = None, attachment = None, gem_id = None,
      reply_to = None, reactions = Map.empty\<rparr>"

definition two_messages :: store where
  "two_messages =
     \<lparr>chat_collection =
        [\<lparr>c_id = chat_A, c_chat_id = Some alias_A, chat_type = ''private_chat'',
          participants = [member 1, member 2], group_admins = [],
          unread_counts = Map.empty, removed_members = [], last_message = None,
          last_activity = 20\<rparr>],
      message_collection =
        [plain_message msg_1 chat_A ''2'' ''first'' 10,
         (plain_message msg_2 chat_A ''1'' ''second'' 20)\<lparr>attachment := Some ''photo.png''\<rparr>],
      invite_collection = [],
      removed_members_collection = []\<rparr>"

definition msg_3 :: string where
  "msg_3 = ''000000000000000000000003''"

definition msg_9 :: string where
  "msg_9 = ''000000000000000000000009''"

definition reply_request :: ReplyMessageRequest where
  "reply_request = \<lparr>rq_content = ''answer'', rq_message_type = ''text'',
                     rq_attachment = None, rq_gem_id = None\<rparr>"

text \<open>
  A group as the group-creation handler writes it: the creator, user 1, is the only
  admin; users 2 and 3 are members.
\<close>

definition chat_G :: string where
  "chat_G = ''bbbbbbbbbbbbbbbbbbbbbbbb''"

definition alias_G :: string where
  "alias_G = ''bbbbbbbbbbbbbbbbbbbbbb00''"

definition creator_admin :: "int \<Rightarrow> admin" where
  "creator_admin i =
     \<lparr>a_id = IntId i, a_type = ''user'', a_role = ''admin'', a_added_by = None,
      a_added_at = None,
      a_permissions = [''invite'', ''add_members'', ''remove_members'', ''manage_settings'',
                       ''manage_admins'']\<rparr>"

definition group_chat_G :: chat where
  "group_chat_G =
     \<lparr>c_id = chat_G, c_chat_id = Some alias_G, chat_type = ''group_chat'',
      participants = [(member 1)\<lparr>p_role := ''admin''\<rparr>,
                      (member 2)\<lparr>p_type := ''dealer''\<rparr>, (member 3)\<lparr>p_type := ''dealer''\<rparr>],
      group_admins = [creator_admin 1],
      unread_counts = Map.empty, removed_members = [], last_message = None,
      last_activity = 0\<rparr>"

definition group_store :: store where
  "group_store =
     \<lparr>chat_collection = [group_chat_G], message_collection = [],
      invite_collection = [], removed_members_collection = []\<rparr>"

text \<open>
  The group with one open invite, and the store that the first update of the handler
  leaves while user 5 redeems that invite.
\<close>

definition invite_store :: store where
  "invite_store =
     group_store\<lparr>invite_collection :=
       [\<lparr>code = ''tok'', i_chat_id = chat_G, creator_id = IntId 1, created_at = 0,
         expires_at = 100, is_active = True, used_by = None, used_at = None\<rparr>]\<rparr>"

definition half_joined :: store where
  "half_joined = snd (add_chat_participant invite_store 50 chat_G (IntId 5) ''user'' ''member'')"

text \<open>
  The chat of users 1 and 2 with no message yet, and the same store after user 2 has
  sent ``hi'': the message is written by \<open>add_message\<close>, from the \<open>ChatMessage\<close> that
  the sending handler builds with the caller's numeric id.
\<close>

definition empty_chat :: store where
  "empty_chat = two_messages\<lparr>message_collection := []\<rparr>"

definition hi_from_2 :: ChatMessage where
  "hi_from_2 =
     \<lparr>cm_chat_id = chat_A, cm_sender_id = IntId 2, cm_sender_type = ''user'',
      cm_content = ''hi'', cm_message_type = ''text'', cm_gem_id = None,
      cm_attachment = None, cm_reply_to = None\<rparr>"

definition sent_by_2 :: store where
  "sent_by_2 = snd (add_message empty_chat 10 msg_1 hi_from_2)"

text \<open>The same group with an invite that was issued on the chat's secondary id.\<close>

definition alias_invite_store :: store where
  "alias_invite_store =
     group_store\<lparr>invite_collection :=
       [\<lparr>code = ''tok'', i_chat_id = alias_G, creator_id = IntId 1, created_at = 0,
         expires_at = 100, is_active = True, used_by = None, used_at = None\<rparr>]\<rparr>"

section \<open>Properties of the connection registry\<close>

lemma broadcast_loop_size_changed:
  "room_size mgr chat_id \<noteq> si_used \<Longrightarrow>
   broadcast_loop chat_id message excl si_used rest mgr out = (Some RuntimeError, mgr, out)"
  by (cases rest) simp_all

lemma room_size_disconnect:
  assumes "chat_rooms mgr chat_id = Some room" and "c \<in> set room"
    and "active_connections mgr c = Some ws"
  shows "room_size (disconnect mgr c) chat_id < room_size mgr chat_id"
proof -
  have "length (removeAll c room) < length room"
    using assms(2) by (induction room) (auto simp: less_Suc_eq_le)
  then show ?thesis
    using assms(1,3) by (simp add: room_size_def disconnect_def discard_def)
qed

lemma broadcast_loop_raises:
  assumes "chat_rooms mgr chat_id = Some room"
    and "set rest \<subseteq> set room"
    and "c \<in> set rest" and "Some c \<noteq> excl"
    and "active_connections mgr c = Some ws" and "\<not> healthy ws"
  shows "fst (broadcast_loop chat_id message excl si_used rest mgr out) = Some RuntimeError"
  using assms(2,3)
proof (induction rest arbitrary: out)
  case Nil
  then show ?case by simp
next
  case (Cons x rest)
  show ?case
  proof (cases "room_size mgr chat_id = si_used")
    case False
    then show ?thesis by simp
  next
    case size_ok: True
    show ?thesis
    proof (cases "x = c")
      case True
      have "room_size (disconnect mgr c) chat_id \<noteq> si_used"
        using room_size_disconnect [OF assms(1) _ assms(5)] Cons.prems size_ok True
        by auto
      then show ?thesis
        using True size_ok assms(4,5,6)
        by (simp add: send_json_def broadcast_loop_size_changed)
    next
      case False
      then have c_rest: "c \<in> set rest" and sub: "set rest \<subseteq> set room"
        using Cons.prems by auto
      show ?thesis
      proof (cases "Some x \<noteq> excl \<and> (\<exists>w. active_connections mgr x = Some w \<and> \<not> healthy w)")
        case True
        then obtain w where w: "active_connections mgr x = Some w" "\<not> healthy w" by blast
        have "x \<in> set room" using Cons.prems by auto
        then have "room_size (disconnect mgr x) chat_id \<noteq> si_used"
          using room_size_disconnect [OF assms(1) _ w(1)] size_ok by auto
        then show ?thesis
          using True size_ok w by (simp add: send_json_def broadcast_loop_size_changed)
      next
        case False
        then show ?thesis
          using size_ok Cons.IH [OF sub c_rest]
          by (auto simp: send_json_def split: option.splits)
      qed
    qed
  qed
qed

lemma broadcast_to_chat_raises:
  assumes "chat_rooms mgr chat_id = Some room" and "c \<in> set room" and "Some c \<noteq> excl"
    and "active_connections mgr c = Some ws" and "\<not> healthy ws"
  shows "fst (broadcast_to_chat mgr out chat_id message excl) = Some RuntimeError"
  using broadcast_loop_raises [OF assms(1) subset_refl assms(2-5)] assms(1)
  by (simp add: broadcast_to_chat_def)

text \<open>
  C1. A broadcast to room \<open>c1\<close> = \{user\_1, user\_2\} in which the send to user\_1 fails:
  user\_1 is disconnected and removed, but the loop then leaves with \<open>RuntimeError\<close>
  (the set it iterates over was shrunk by the disconnect), so the error reaches the
  caller and user\_2, whose transport is healthy, receives nothing.
\<close>

theorem broadcast_to_chat_send_failure_raises:
  "(case broadcast_to_chat two_peers [] ''c1'' ''hello'' None of
      (raised, mgr', out') \<Rightarrow>
        raised = Some RuntimeError \<and> out' = [] \<and>
        active_connections mgr' ''user_1'' = None \<and>
        active_connections mgr' ''user_2'' = Some (WebSocket True) \<and>
        chat_rooms mgr' ''c1'' = Some [''user_2''])"
  by (simp add: broadcast_to_chat_def two_peers_def room_size_def send_json_def
      disconnect_def discard_def)

section \<open>Evaluation of the scenarios\<close>


lemma str_nat_small: "str_nat 1 = ''1''" "str_nat 2 = ''2''" "str_nat 3 = ''3''"
  by code_simp+

lemma py_str_small:
  "str_int 1 = ''1''" "str_int 2 = ''2''" "str_int 3 = ''3''"
  by code_simp+

lemma ObjectId_scenario:
  "ObjectId chat_A = Inr chat_A" "ObjectId chat_G = Inr chat_G"
  "ObjectId msg_1 = Inr msg_1" "ObjectId msg_2 = Inr msg_2"
  "ObjectId msg_3 = Inr msg_3" "ObjectId msg_9 = Inr msg_9"
  by (simp_all add: ObjectId_def chat_A_def chat_G_def msg_1_def msg_2_def msg_3_def msg_9_def
      is_hex_def lower_hex_def)

lemma scenario_ids_distinct:
  "msg_1 \<noteq> msg_2" "msg_2 \<noteq> msg_1" "msg_1 \<noteq> msg_3" "msg_2 \<noteq> msg_3"
  "msg_9 \<noteq> msg_1" "msg_9 \<noteq> msg_2" "msg_1 \<noteq> msg_9" "msg_2 \<noteq> msg_9"
  "alias_A \<noteq> chat_A" "alias_G \<noteq> chat_G"
  by (simp_all add: msg_1_def msg_2_def msg_3_def msg_9_def alias_A_def alias_G_def
      chat_A_def chat_G_def)

lemmas handler_defs =
  get_message_def find_one_def get_chat_details_def get_chat_def chat_or_query_def
  is_participant_def get_participant_type_def member_def plain_message_def
  scenario_ids_distinct


lemma str_int_more: "str_int 5 = ''5''" "str_int 6 = ''6''"
  by code_simp+


lemma ObjectId_alias_G: "ObjectId alias_G = Inr alias_G"
  by (simp add: ObjectId_def alias_G_def is_hex_def lower_hex_def)

lemma chat_G_not_alias_G: "chat_G \<noteq> alias_G"
  by (simp add: chat_G_def alias_G_def)

section \<open>Facts about the store operations\<close>

lemma find_one_Some:
  "find_one P xs = Some x \<Longrightarrow> x \<in> set xs \<and> P x"
  unfolding find_one_def by (induction xs) (auto split: if_splits)

lemma find_one_None:
  "find_one P xs = None \<longleftrightarrow> (\<forall>x\<in>set xs. \<not> P x)"
  unfolding find_one_def by (induction xs) auto

lemma find_one_update_one:
  assumes "find_one P xs = Some x" and "P (f x)"
  shows "find_one P (update_one P f xs) = Some (f x)"
  using assms unfolding find_one_def by (induction xs) (auto split: if_splits)

lemma update_one_twice:
  assumes "\<And>x. P x \<Longrightarrow> P (f x)" and "\<And>x. P x \<Longrightarrow> g (f x) = f x"
  shows "update_one P g (update_one P f xs) = update_one P f xs"
  using assms by (induction xs) auto

lemma update_many_twice:
  assumes "\<And>x. P x \<Longrightarrow> \<not> P (f x)"
  shows "update_many P g (update_many P f xs) = update_many P f xs"
  using assms by (induction xs) (auto simp: update_many_def)

lemma find_one_by_key:
  assumes "distinct (map key xs)" and "x \<in> set xs"
  shows "find_one (\<lambda>y. key y = key x) xs = Some x"
  using assms unfolding find_one_def by (induction xs) (auto simp: image_iff)

lemma addToSet_fresh: "x \<notin> set xs \<Longrightarrow> addToSet x xs = xs @ [x]"
  by (simp add: addToSet_def)

lemma update_one_undo:
  assumes "find_one P xs = Some x" and "P (f x)" and "g (f x) = x"
  shows "update_one P g (update_one P f xs) = xs"
  using assms unfolding find_one_def by (induction xs) (auto split: if_splits)



section \<open>Read receipts\<close>

lemma stamp_not_in:
  "\<not> list_ex (\<lambda>r. user_id r = uid \<and> Q r) xs \<Longrightarrow> Q \<lparr>user_id = uid, user_type = utype, stamp = now\<rparr> \<Longrightarrow>
   \<lparr>user_id = uid, user_type = utype, stamp = now\<rparr> \<notin> set xs"
  by (induction xs) auto

lemma list_ex_addToSet: "P x \<Longrightarrow> list_ex P (addToSet x xs)"
  by (auto simp: addToSet_def list_ex_iff)

lemma read_query_after_update:
  "\<not> read_query chat_id uid (read_update uid utype now m)"
  by (simp add: read_query_def read_update_def list_ex_addToSet)

lemma read_update_append:
  "read_query chat_id uid m \<Longrightarrow>
   read_update uid utype now m =
     m\<lparr>read_by := read_by m @ [\<lparr>user_id = uid, user_type = utype, stamp = now\<rparr>]\<rparr>"
  using stamp_not_in [of uid "\<lambda>r. True" "read_by m" utype now]
  by (simp add: read_query_def read_update_def addToSet_def)

lemma mark_as_read_twice:
  "snd (mark_as_read (snd (mark_as_read s t1 chat_id uid utype)) t2 chat_id uid utype) =
   snd (mark_as_read s t1 chat_id uid utype)"
proof -
  have msgs: "update_many (read_query chat_id uid) (read_update uid utype t2)
                (update_many (read_query chat_id uid) (read_update uid utype t1) xs) =
              update_many (read_query chat_id uid) (read_update uid utype t1) xs" for xs
    by (rule update_many_twice) (rule read_query_after_update)
  have chats: "update_one (\<lambda>c. c_id c = k) (reset_unread utype uid)
                 (update_one (\<lambda>c. c_id c = k) (reset_unread utype uid) ys) =
               update_one (\<lambda>c. c_id c = k) (reset_unread utype uid) ys" for k ys
    by (rule update_one_twice) (simp_all add: reset_unread_def)
  show ?thesis
    by (cases "ObjectId chat_id") (simp_all add: mark_as_read_def Let_def msgs chats)
qed


text \<open>
  What \<open>mark_as_read\<close> does to the store: it appends the viewer's entry to the
  \<open>read_by\<close> of every message of the chat whose stored sender id differs from the id
  it was called with and that has no entry under that id, sets the viewer's counter on
  the chat with that primary id to 0, and a second call changes nothing more.
\<close>

lemma mark_as_read_effect:
  assumes "ObjectId chat_id = Inr k"
    and "find_one (\<lambda>c. c_id c = k) (chat_collection s) = Some c"
  shows
    "message_collection (snd (mark_as_read s t1 chat_id uid utype)) =
       map (\<lambda>m. if m_chat_id m = chat_id \<and> sender_id m \<noteq> uid \<and>
                    \<not> list_ex (\<lambda>r. user_id r = uid) (read_by m)
                 then m\<lparr>read_by := read_by m @
                                      [\<lparr>user_id = uid, user_type = utype, stamp = t1\<rparr>]\<rparr>
                 else m)
         (message_collection s) \<and>
     find_one (\<lambda>c. c_id c = k) (chat_collection (snd (mark_as_read s t1 chat_id uid utype))) =
       Some (c\<lparr>unread_counts := (unread_counts c)(participant_key utype uid \<mapsto> 0)\<rparr>) \<and>
     snd (mark_as_read (snd (mark_as_read s t1 chat_id uid utype)) t2 chat_id uid utype) =
       snd (mark_as_read s t1 chat_id uid utype)"
proof (intro conjI)
  have "update_many (read_query chat_id uid) (read_update uid utype t1) xs =
        map (\<lambda>m. if read_query chat_id uid m
                  then m\<lparr>read_by := read_by m @
                                       [\<lparr>user_id = uid, user_type = utype, stamp = t1\<rparr>]\<rparr>
                  else m) xs" for xs
    by (simp add: update_many_def read_update_append cong: if_cong)
  then show "message_collection (snd (mark_as_read s t1 chat_id uid utype)) =
       map (\<lambda>m. if m_chat_id m = chat_id \<and> sender_id m \<noteq> uid \<and>
                    \<not> list_ex (\<lambda>r. user_id r = uid) (read_by m)
                 then m\<lparr>read_by := read_by m @
                                      [\<lparr>user_id = uid, user_type = utype, stamp = t1\<rparr>]\<rparr>
                 else m)
         (message_collection s)"
    using assms(1) by (simp add: mark_as_read_def Let_def read_query_def)
next
  show "find_one (\<lambda>c. c_id c = k)
          (chat_collection (snd (mark_as_read s t1 chat_id uid utype))) =
        Some (c\<lparr>unread_counts := (unread_counts c)(participant_key utype uid \<mapsto> 0)\<rparr>)"
    using assms find_one_Some [OF assms(2)]
      find_one_update_one [OF assms(2), of "reset_unread utype uid"]
    by (simp add: mark_as_read_def Let_def reset_unread_def)
next
  show "snd (mark_as_read (snd (mark_as_read s t1 chat_id uid utype)) t2 chat_id uid utype) =
        snd (mark_as_read s t1 chat_id uid utype)"
    by (rule mark_as_read_twice)
qed

text \<open>
  C9. User 2 sends ``hi'' and then marks the chat as read. \<open>add_message\<close> has stored
  the sender id, and the sender's own read entry, as the string \<open>"2"\<close>; the handler
  calls \<open>mark_as_read\<close> with the number 2, which the filter
  \<open>{"sender_id": {"$ne": user_id}, "read_by": {"$not": {"$elemMatch": {"user_id":
  user_id}}}}\<close> finds different from every stored id. The message user 2 sent, and had
  read, gets a second read entry of user 2. (A second call adds nothing more, and the
  counter is 0.)
\<close>

theorem mark_read_stamps_own_message:
  "map sender_id (message_collection sent_by_2) = [StrId ''2''] \<and>
   map read_by (message_collection sent_by_2) =
     [[\<lparr>user_id = StrId ''2'', user_type = ''user'', stamp = 10\<rparr>]] \<and>
   (case route_mark_chat_as_read sent_by_2 30 chat_A (IntId 2) of
      (response, s') \<Rightarrow>
        response = Inr () \<and>
        map read_by (message_collection s') =
          [[\<lparr>user_id = StrId ''2'', user_type = ''user'', stamp = 10\<rparr>,
            \<lparr>user_id = IntId 2, user_type = ''user'', stamp = 30\<rparr>]] \<and>
        map (\<lambda>c. unread_counts c ''user_2'') (chat_collection s') = [Some 0])"
  by (simp add: sent_by_2_def empty_chat_def hi_from_2_def add_message_def message_dict_def
      route_mark_chat_as_read_def mark_chat_as_read_try_def except_Exception_def
      mark_as_read_def update_many_def read_query_def read_update_def addToSet_def
      reset_unread_def participant_key_def two_messages_def handler_defs ObjectId_scenario
      py_str_small Let_def)

section \<open>Delivery receipts\<close>






section \<open>Reactions\<close>

lemma find_user_none:
  "\<not> list_ex (\<lambda>r. r_user_id r = uid) es \<Longrightarrow> List.find (\<lambda>r. r_user_id r = uid) es = None"
  by (induction es) auto

lemma find_user_appended:
  "\<not> list_ex (\<lambda>r. r_user_id r = uid) es \<Longrightarrow>
   List.find (\<lambda>r. r_user_id r = uid) (es @ [\<lparr>r_user_id = uid, r_timestamp = t\<rparr>]) =
     Some \<lparr>r_user_id = uid, r_timestamp = t\<rparr>"
  by (induction es) auto

lemma remove1_appended:
  "\<not> list_ex (\<lambda>r. r_user_id r = uid) es \<Longrightarrow>
   remove1 \<lparr>r_user_id = uid, r_timestamp = t\<rparr> (es @ [\<lparr>r_user_id = uid, r_timestamp = t\<rparr>]) = es"
  by (induction es) auto

lemma toggle_reactions_add:
  assumes "\<not> list_ex (\<lambda>r. r_user_id r = uid) (reactions_get reacts emoji)"
  shows "toggle_reactions reacts uid emoji t =
           reacts(emoji \<mapsto> reactions_get reacts emoji @ [\<lparr>r_user_id = uid, r_timestamp = t\<rparr>])"
  using find_user_none [OF assms] by (simp add: toggle_reactions_def Let_def)

lemma toggle_reactions_remove:
  assumes "List.find (\<lambda>r. r_user_id r = uid) (reactions_get reacts emoji) = Some e"
  shows "toggle_reactions reacts uid emoji t =
           (if remove1 e (reactions_get reacts emoji) = [] then reacts(emoji := None)
            else reacts(emoji \<mapsto> remove1 e (reactions_get reacts emoji)))"
  using assms by (simp add: toggle_reactions_def Let_def)

lemma toggle_reactions_other:
  "emoji' \<noteq> emoji \<Longrightarrow> toggle_reactions reacts uid emoji t emoji' = reacts emoji'"
  by (simp add: toggle_reactions_def Let_def)

lemma toggle_reactions_twice:
  assumes "\<not> list_ex (\<lambda>r. r_user_id r = uid) (reactions_get reacts emoji)"
    and "reacts emoji \<noteq> Some []"
  shows "toggle_reactions (toggle_reactions reacts uid emoji t1) uid emoji t2 = reacts"
proof -
  let ?es = "reactions_get reacts emoji"
  let ?new = "\<lparr>r_user_id = uid, r_timestamp = t1\<rparr>"
  let ?R1 = "reacts(emoji \<mapsto> ?es @ [?new])"
  have get1: "reactions_get ?R1 emoji = ?es @ [?new]"
    by (simp add: reactions_get_def)
  have second: "toggle_reactions ?R1 uid emoji t2 =
                  (if ?es = [] then ?R1(emoji := None) else ?R1(emoji \<mapsto> ?es))"
    using toggle_reactions_remove [of uid ?R1 emoji ?new t2]
      find_user_appended [OF assms(1)] remove1_appended [OF assms(1)]
    by (simp add: get1)
  have restored: "(if ?es = [] then ?R1(emoji := None) else ?R1(emoji \<mapsto> ?es)) = reacts"
    using assms(2) by (auto simp: reactions_get_def fun_eq_iff split: option.splits)
  show ?thesis
    by (simp only: toggle_reactions_add [OF assms(1)] second restored)
qed

lemma toggle_message_reaction_found:
  assumes "get_message s message_id = Some m"
  shows "\<exists>k. ObjectId message_id = Inr k \<and>
             find_one (\<lambda>x. m_id x = k) (message_collection s) = Some m \<and>
             toggle_message_reaction s t message_id uid emoji =
               (Inr (toggle_reactions (reactions m) uid emoji t),
                s\<lparr>message_collection :=
                    update_one (\<lambda>x. m_id x = k)
                      (\<lambda>x. x\<lparr>reactions := toggle_reactions (reactions m) uid emoji t\<rparr>)
                      (message_collection s)\<rparr>)"
  using assms by (auto simp: get_message_def toggle_message_reaction_def Let_def split: sum.splits)

lemma toggle_message_reaction_stored:
  assumes "get_message s message_id = Some m"
  shows "get_message (snd (toggle_message_reaction s t message_id uid emoji)) message_id =
           Some (m\<lparr>reactions := toggle_reactions (reactions m) uid emoji t\<rparr>)"
proof -
  from toggle_message_reaction_found [OF assms, of t uid emoji] obtain k where
    k: "ObjectId message_id = Inr k"
    and m: "find_one (\<lambda>x. m_id x = k) (message_collection s) = Some m"
    and eq: "toggle_message_reaction s t message_id uid emoji =
               (Inr (toggle_reactions (reactions m) uid emoji t),
                s\<lparr>message_collection :=
                    update_one (\<lambda>x. m_id x = k)
                      (\<lambda>x. x\<lparr>reactions := toggle_reactions (reactions m) uid emoji t\<rparr>)
                      (message_collection s)\<rparr>)"
    by blast
  have "m_id m = k" using find_one_Some [OF m] by simp
  with find_one_update_one [OF m,
      of "\<lambda>x. x\<lparr>reactions := toggle_reactions (reactions m) uid emoji t\<rparr>"]
  show ?thesis by (simp add: eq get_message_def k)
qed

lemma toggle_message_reaction_twice:
  assumes "get_message s message_id = Some m"
    and "\<not> list_ex (\<lambda>r. r_user_id r = uid) (reactions_get (reactions m) emoji)"
    and "reactions m emoji \<noteq> Some []"
  shows "toggle_message_reaction (snd (toggle_message_reaction s t1 message_id uid emoji)) t2
           message_id uid emoji = (Inr (reactions m), s)"
proof -
  let ?R1 = "toggle_reactions (reactions m) uid emoji t1"
  let ?s1 = "snd (toggle_message_reaction s t1 message_id uid emoji)"
  from toggle_message_reaction_found [OF assms(1), of t1 uid emoji] obtain k where
    k: "ObjectId message_id = Inr k"
    and m: "find_one (\<lambda>x. m_id x = k) (message_collection s) = Some m"
    and s1: "?s1 = s\<lparr>message_collection :=
                    update_one (\<lambda>x. m_id x = k) (\<lambda>x. x\<lparr>reactions := ?R1\<rparr>)
                      (message_collection s)\<rparr>"
    by auto
  have idk: "m_id m = k" using find_one_Some [OF m] by simp
  have got: "get_message ?s1 message_id = Some (m\<lparr>reactions := ?R1\<rparr>)"
    by (rule toggle_message_reaction_stored [OF assms(1)])
  have restored: "toggle_reactions ?R1 uid emoji t2 = reactions m"
    by (rule toggle_reactions_twice [OF assms(2,3)])
  have undo: "update_one (\<lambda>x. m_id x = k) (\<lambda>x. x\<lparr>reactions := reactions m\<rparr>)
                (update_one (\<lambda>x. m_id x = k) (\<lambda>x. x\<lparr>reactions := ?R1\<rparr>) (message_collection s)) =
              message_collection s"
    by (rule update_one_undo [OF m]) (simp_all add: idk)
  from toggle_message_reaction_found [OF got, of t2 uid emoji] k
  have "toggle_message_reaction ?s1 t2 message_id uid emoji =
          (Inr (reactions m),
           ?s1\<lparr>message_collection :=
                 update_one (\<lambda>x. m_id x = k) (\<lambda>x. x\<lparr>reactions := reactions m\<rparr>)
                   (message_collection ?s1)\<rparr>)"
    by (auto simp: restored)
  then show ?thesis
    by (simp add: s1 undo)
qed


text \<open>
  C8. \<open>toggle_message_reaction\<close> on a stored message: when the user has no entry under
  the emoji, an entry with the user and the time is appended; when the user has one, that
  entry is removed, and the emoji is dropped from the mapping when its list becomes
  empty; the other emojis and the other fields of the message are untouched. Toggling
  twice, starting without an entry, gives back the original mapping and the original
  store.
\<close>

theorem react_toggle_semantics:
  assumes "get_message s message_id = Some m"
  shows
    "(\<not> list_ex (\<lambda>r. r_user_id r = uid) (reactions_get (reactions m) emoji) \<longrightarrow>
        fst (toggle_message_reaction s t1 message_id uid emoji) =
          Inr ((reactions m)(emoji \<mapsto> reactions_get (reactions m) emoji @
                                          [\<lparr>r_user_id = uid, r_timestamp = t1\<rparr>])) \<and>
        get_message (snd (toggle_message_reaction s t1 message_id uid emoji)) message_id =
          Some (m\<lparr>reactions := (reactions m)(emoji \<mapsto> reactions_get (reactions m) emoji @
                                          [\<lparr>r_user_id = uid, r_timestamp = t1\<rparr>])\<rparr>) \<and>
        (reactions m emoji \<noteq> Some [] \<longrightarrow>
           toggle_message_reaction (snd (toggle_message_reaction s t1 message_id uid emoji)) t2
             message_id uid emoji = (Inr (reactions m), s))) \<and>
     (\<forall>e. List.find (\<lambda>r. r_user_id r = uid) (reactions_get (reactions m) emoji) = Some e \<longrightarrow>
        fst (toggle_message_reaction s t1 message_id uid emoji) =
          Inr (if remove1 e (reactions_get (reactions m) emoji) = []
               then (reactions m)(emoji := None)
               else (reactions m)(emoji \<mapsto> remove1 e (reactions_get (reactions m) emoji))) \<and>
        get_message (snd (toggle_message_reaction s t1 message_id uid emoji)) message_id =
          Some (m\<lparr>reactions :=
                    (if remove1 e (reactions_get (reactions m) emoji) = []
                     then (reactions m)(emoji := None)
                     else (reactions m)(emoji \<mapsto> remove1 e (reactions_get (reactions m) emoji)))\<rparr>))"
proof -
  have res: "fst (toggle_message_reaction s t1 message_id uid emoji) =
               Inr (toggle_reactions (reactions m) uid emoji t1)"
    using toggle_message_reaction_found [OF assms, of t1 uid emoji] by auto
  note stored = toggle_message_reaction_stored [OF assms, of t1 uid emoji]
  show ?thesis
  proof (intro conjI impI allI)
    assume none: "\<not> list_ex (\<lambda>r. r_user_id r = uid) (reactions_get (reactions m) emoji)"
    show "fst (toggle_message_reaction s t1 message_id uid emoji) =
          Inr ((reactions m)(emoji \<mapsto> reactions_get (reactions m) emoji @
                                          [\<lparr>r_user_id = uid, r_timestamp = t1\<rparr>]))"
      by (simp only: res toggle_reactions_add [OF none])
    show "get_message (snd (toggle_message_reaction s t1 message_id uid emoji)) message_id =
          Some (m\<lparr>reactions := (reactions m)(emoji \<mapsto> reactions_get (reactions m) emoji @
                                          [\<lparr>r_user_id = uid, r_timestamp = t1\<rparr>])\<rparr>)"
      by (simp only: stored toggle_reactions_add [OF none])
    assume "reactions m emoji \<noteq> Some []"
    with assms none
    show "toggle_message_reaction (snd (toggle_message_reaction s t1 message_id uid emoji)) t2
             message_id uid emoji = (Inr (reactions m), s)"
      by (rule toggle_message_reaction_twice)
  next
    fix e
    assume e: "List.find (\<lambda>r. r_user_id r = uid) (reactions_get (reactions m) emoji) = Some e"
    show "fst (toggle_message_reaction s t1 message_id uid emoji) =
          Inr (if remove1 e (reactions_get (reactions m) emoji) = []
               then (reactions m)(emoji := None)
               else (reactions m)(emoji \<mapsto> remove1 e (reactions_get (reactions m) emoji)))"
      by (simp only: res toggle_reactions_remove [OF e])
    show "get_message (snd (toggle_message_reaction s t1 message_id uid emoji)) message_id =
          Some (m\<lparr>reactions :=
                    (if remove1 e (reactions_get (reactions m) emoji) = []
                     then (reactions m)(emoji := None)
                     else (reactions m)(emoji \<mapsto> remove1 e (reactions_get (reactions m) emoji)))\<rparr>)"
      by (simp only: stored toggle_reactions_remove [OF e])
  qed
qed


theorem react_toggle_semantics_witness:
  "get_message two_messages msg_1 = Some (plain_message msg_1 chat_A ''2'' ''first'' 10) \<and>
   \<not> list_ex (\<lambda>r. r_user_id r = IntId 2)
       (reactions_get (reactions (plain_message msg_1 chat_A ''2'' ''first'' 10)) ''like'') \<and>
   reactions (plain_message msg_1 chat_A ''2'' ''first'' 10) ''like'' \<noteq> Some [] \<and>
   fst (toggle_message_reaction two_messages 30 msg_1 (IntId 2) ''like'') =
     Inr [''like'' \<mapsto> [\<lparr>r_user_id = IntId 2, r_timestamp = 30\<rparr>]] \<and>
   toggle_message_reaction (snd (toggle_message_reaction two_messages 30 msg_1 (IntId 2) ''like''))
     31 msg_1 (IntId 2) ''like'' = (Inr Map.empty, two_messages) \<and>
   get_message (snd (toggle_message_reaction two_messages 30 msg_1 (IntId 2) ''like'')) msg_1 =
     Some ((plain_message msg_1 chat_A ''2'' ''first'' 10)
             \<lparr>reactions := [''like'' \<mapsto> [\<lparr>r_user_id = IntId 2, r_timestamp = 30\<rparr>]]\<rparr>) \<and>
   List.find (\<lambda>r. r_user_id r = IntId 2)
     (reactions_get [''like'' \<mapsto> [\<lparr>r_user_id = IntId 2, r_timestamp = 30\<rparr>]] ''like'') =
     Some \<lparr>r_user_id = IntId 2, r_timestamp = 30\<rparr> \<and>
   fst (toggle_message_reaction
          (snd (toggle_message_reaction two_messages 30 msg_1 (IntId 2) ''like''))
          31 msg_1 (IntId 2) ''like'') = Inr Map.empty"
proof -
  let ?m = "plain_message msg_1 chat_A ''2'' ''first'' 10"
  let ?s1 = "snd (toggle_message_reaction two_messages 30 msg_1 (IntId 2) ''like'')"
  let ?e = "\<lparr>r_user_id = IntId 2, r_timestamp = 30\<rparr>"
  have h1: "get_message two_messages msg_1 = Some ?m"
    by (simp add: two_messages_def get_message_def find_one_def ObjectId_scenario
        plain_message_def)
  have empty: "reactions ?m = Map.empty"
    by (simp add: plain_message_def)
  have get0: "reactions_get Map.empty ''like'' = []"
    by (simp add: reactions_get_def)
  have h2: "\<not> list_ex (\<lambda>r. r_user_id r = IntId 2) (reactions_get (reactions ?m) ''like'')"
    by (simp add: empty get0)
  have h3: "reactions ?m ''like'' \<noteq> Some []"
    by (simp add: empty)
  note first = react_toggle_semantics [OF h1, of "IntId 2" "''like''" 30 31]
  from conjunct1 [OF first] h2
  have first': "fst (toggle_message_reaction two_messages 30 msg_1 (IntId 2) ''like'') =
          Inr ((reactions ?m)(''like'' \<mapsto> reactions_get (reactions ?m) ''like'' @ [?e])) \<and>
        get_message ?s1 msg_1 =
          Some (?m\<lparr>reactions := (reactions ?m)(''like'' \<mapsto>
                   reactions_get (reactions ?m) ''like'' @ [?e])\<rparr>) \<and>
        (reactions ?m ''like'' \<noteq> Some [] \<longrightarrow>
           toggle_message_reaction ?s1 31 msg_1 (IntId 2) ''like'' = (Inr (reactions ?m), two_messages))"
    by (rule mp)
  have a: "fst (toggle_message_reaction two_messages 30 msg_1 (IntId 2) ''like'') =
             Inr [''like'' \<mapsto> [?e]]"
    using conjunct1 [OF first'] by (simp only: empty get0 append_Nil)
  have b: "get_message ?s1 msg_1 = Some (?m\<lparr>reactions := [''like'' \<mapsto> [?e]]\<rparr>)"
    using conjunct1 [OF conjunct2 [OF first']] by (simp only: empty get0 append_Nil)
  have c: "toggle_message_reaction ?s1 31 msg_1 (IntId 2) ''like'' = (Inr Map.empty, two_messages)"
    using mp [OF conjunct2 [OF conjunct2 [OF first']] h3] by (simp only: empty)
  have h4: "List.find (\<lambda>r. r_user_id r = IntId 2)
              (reactions_get [''like'' \<mapsto> [?e]] ''like'') = Some ?e"
    by (simp add: reactions_get_def)
  have h4': "List.find (\<lambda>r. r_user_id r = IntId 2)
               (reactions_get (reactions (?m\<lparr>reactions := [''like'' \<mapsto> [?e]]\<rparr>)) ''like'') = Some ?e"
    by (simp add: reactions_get_def)
  note second = react_toggle_semantics [OF b, of "IntId 2" "''like''" 31 32]
  from conjunct1 [OF mp [OF spec [OF conjunct2 [OF second], of ?e] h4']]
  have d: "fst (toggle_message_reaction ?s1 31 msg_1 (IntId 2) ''like'') = Inr Map.empty"
    by (simp add: reactions_get_def)
  show ?thesis
    by (intro conjI h1 h2 h3 a b c d h4)
qed


lemma toggle_reactions_no_empty_list:
  "toggle_reactions reacts uid emoji t emoji \<noteq> Some []"
  by (simp add: toggle_reactions_def Let_def)

section \<open>Handlers evaluated on the scenarios\<close>

text \<open>
  C4. User 1 deletes their own message \<open>msg_2\<close> for everyone. The update goes to the
  first message of the collection that matches the filter, and the filter also matches
  on the chat id: \<open>msg_1\<close>, sent by user 2, is marked deleted and loses its content,
  while \<open>msg_2\<close> keeps its content and its attachment.
\<close>

theorem delete_for_everyone_marks_another_message:
  "(case route_delete_message two_messages 30 msg_2 True (IntId 1) of
      (response, s') \<Rightarrow>
        response = Inr True \<and>
        map m_id (message_collection s') = [msg_1, msg_2] \<and>
        map sender_id (message_collection s') = [StrId ''2'', StrId ''1''] \<and>
        map is_deleted (message_collection s') = [True, False] \<and>
        map content (message_collection s') = [''This message was deleted'', ''second''] \<and>
        map attachment (message_collection s') = [None, Some ''photo.png''])"
  by (simp add: route_delete_message_def two_messages_def handler_defs ObjectId_scenario
      py_str_small scenario_ids_distinct delete_message_def modified_count_def
      delete_query_def delete_update_def)

text \<open>
  C6. User 1 deletes \<open>msg_2\<close> for themselves only. The entry is added to the
  \<open>deleted_for\<close> of \<open>msg_1\<close>: the message list of user 1 still holds \<open>msg_2\<close> and
  has lost \<open>msg_1\<close>.
\<close>

theorem delete_for_self_hides_another_message:
  "(case route_delete_message two_messages 30 msg_2 False (IntId 1) of
      (response, s') \<Rightarrow>
        response = Inr False \<and>
        map deleted_for (message_collection s') =
          [[\<lparr>user_id = IntId 1, user_type = ''user'', stamp = 30\<rparr>], []] \<and>
        map pm_message_id (get_chat_messages s' chat_A (IntId 1) ''user'' 50 None) = [msg_2] \<and>
        map pm_message_id (get_chat_messages s' chat_A (IntId 2) ''user'' 50 None) =
          [msg_2, msg_1])"
  by (simp add: route_delete_message_def two_messages_def handler_defs ObjectId_scenario
      py_str_small scenario_ids_distinct delete_message_def modified_count_def
      delete_query_def delete_update_def addToSet_def get_chat_messages_def
      messages_query_def not_deleted_for_def process_msg_def)

text \<open>
  C3. A reply to the existing message \<open>msg_1\<close> is stored without a \<open>reply_to\<close> field:
  \<open>add_message\<close> does not copy it into the dictionary it stores and returns. (The
  handler then fails on encoding the returned dictionary and answers status 500, with
  the reply already stored.) A reply to a message that does not exist fails with status
  500 as well: the 404 raised in the body of the handler is caught by the handler's own
  \<open>except Exception\<close>.
\<close>

theorem reply_is_stored_without_reply_to:
  "(case reply_to_message_try two_messages 30 msg_3 chat_A msg_1 reply_request (IntId 1) of
      (response, s') \<Rightarrow>
        response = Inl ValueError \<and>
        map m_id (message_collection s') = [msg_1, msg_2, msg_3] \<and>
        map content (message_collection s') = [''first'', ''second'', ''answer''] \<and>
        map reply_to (message_collection s') = [None, None, None]) \<and>
   (case route_reply_to_message two_messages 30 msg_3 chat_A msg_1 reply_request (IntId 1) of
      (response, s') \<Rightarrow>
        response = Inl (HTTPException 500) \<and>
        map m_id (message_collection s') = [msg_1, msg_2, msg_3] \<and>
        map reply_to (message_collection s') = [None, None, None]) \<and>
   reply_to_message_try two_messages 30 msg_3 chat_A msg_9 reply_request (IntId 1) =
     (Inl (HTTPException 404), two_messages) \<and>
   route_reply_to_message two_messages 30 msg_3 chat_A msg_9 reply_request (IntId 1) =
     (Inl (HTTPException 500), two_messages)"
  by (simp add: route_reply_to_message_def reply_to_message_try_def except_Exception_def
      two_messages_def handler_defs ObjectId_scenario py_str_small add_message_def
      message_dict_def reply_request_def jsonable_encoder_def Let_def)

text \<open>
  C7. The sole admin of the three-member group asks to leave: the store is unchanged, and
  the failure that reaches the caller has status 500: the 400 raised by the sole-admin
  test is caught by the handler's own \<open>except Exception\<close>.
\<close>

theorem sole_admin_leave_raises_500:
  "leave_group_try group_store 40 chat_G None (IntId 1) =
     (Inl (HTTPException 400), group_store) \<and>
   route_leave_group group_store 40 chat_G None (IntId 1) =
     (Inl (HTTPException 500), group_store)"
  by (simp add: route_leave_group_def leave_group_try_def except_Exception_def
      group_store_def group_chat_G_def is_group_admin_def get_other_admins_def
      creator_admin_def handler_defs ObjectId_scenario py_str_small)


lemma sole_admin_leave_blocked:
  assumes "is_group_admin s chat_id u = Inr True" and "get_other_admins s chat_id u = []"
  shows "route_leave_group s now chat_id reason u = (Inl (HTTPException 500), s)"
  using assms by (simp add: route_leave_group_def leave_group_try_def except_Exception_def)

lemma leave_after_second_admin:
  "(case route_leave_group
           (snd (route_update_group_admins group_store 40 chat_G [IntId 2] (IntId 1)))
           41 chat_G None (IntId 1) of
      (response, s') \<Rightarrow>
        response = Inr () \<and>
        map (map p_id) (map participants (chat_collection s')) = [[IntId 2, IntId 3]] \<and>
        map (map a_id) (map group_admins (chat_collection s')) = [[IntId 1, IntId 2]])"
  by (simp add: route_leave_group_def leave_group_try_def except_Exception_def
      route_update_group_admins_def update_group_admins_def
      remove_group_member_def group_store_def group_chat_G_def is_group_admin_def
      get_other_admins_def creator_admin_def new_admin_def py_list_of_set_def handler_defs
      ObjectId_scenario py_str_small Let_def)


lemma delete_for_everyone_non_sender_forbidden:
  assumes "get_message s message_id = Some m"
    and "get_chat_details s (m_chat_id m) = Some c"
    and "py_str (sender_id m) \<noteq> py_str u"
  shows "route_delete_message s now message_id True u = (Inl (HTTPException 403), s)"
  using assms by (simp add: route_delete_message_def)

section \<open>Group admins\<close>









section \<open>Invites\<close>

text \<open>
  C2, as the claim states it, fails: while user 5 redeems the invite there is a store in
  which user 5 is a participant and the invite is still active and retrievable, and in
  that store the redemption by user 6 succeeds as well.
\<close>

theorem join_not_atomic_counterexample:
  "route_join_group_via_invite invite_store 50 50 50 51 ''tok'' (IntId 5) =
     (Inr (joined 4), snd (mark_invite_used half_joined 51 ''tok'' (IntId 5))) \<and>
   map (map p_id) (map participants (chat_collection half_joined)) =
     [[IntId 1, IntId 2, IntId 3, IntId 5]] \<and>
   map is_active (invite_collection half_joined) = [True] \<and>
   map_option code (get_invite half_joined 50 ''tok'') = Some ''tok'' \<and>
   fst (route_join_group_via_invite half_joined 50 50 50 51 ''tok'' (IntId 6)) = Inr (joined 5)"
  by (simp add: route_join_group_via_invite_def half_joined_def invite_store_def
      group_store_def group_chat_G_def get_invite_def handler_defs ObjectId_scenario
      py_str_small str_int_more add_chat_participant_def mark_invite_used_def addToSet_def
      Let_def)


lemma get_chat_Some:
  "get_chat s chat_id = Some c \<Longrightarrow> c \<in> set (chat_collection s)"
  by (auto simp: get_chat_def split: option.splits sum.splits dest: find_one_Some)

lemma update_one_by_key_others:
  assumes "distinct (map key xs)" and "find_one (\<lambda>y. key y = k) xs = Some x"
    and "key (f x) = k"
  shows "\<forall>y\<in>set (update_one (\<lambda>y. key y = k) f xs). key y = k \<longrightarrow> y = f x"
  using assms unfolding find_one_def
  by (induction xs) (auto split: if_splits simp: image_iff)

lemma new_participant_fresh:
  assumes "\<not> is_participant c u"
  shows "addToSet \<lparr>p_id = u, p_type = ut, p_role = r, p_joined_at = t, p_permissions = None\<rparr>
           (participants c) =
         participants c @ [\<lparr>p_id = u, p_type = ut, p_role = r, p_joined_at = t,
                            p_permissions = None\<rparr>]"
proof -
  have "\<lparr>p_id = u, p_type = ut, p_role = r, p_joined_at = t, p_permissions = None\<rparr>
          \<notin> set (participants c)"
    using assms by (auto simp: is_participant_def list_ex_iff)
  then show ?thesis by (rule addToSet_fresh)
qed

lemma add_chat_participant_store:
  assumes "ObjectId chat_id = Inr (c_id c)"
    and "find_one (\<lambda>x. c_id x = c_id c) (chat_collection s) = Some c"
    and "\<not> is_participant c u"
  shows "invite_collection (snd (add_chat_participant s t chat_id u ut r)) = invite_collection s"
    and "find_one (\<lambda>x. c_id x = c_id c)
           (chat_collection (snd (add_chat_participant s t chat_id u ut r))) =
         Some (c\<lparr>participants := participants c @
                   [\<lparr>p_id = u, p_type = ut, p_role = r, p_joined_at = t,
                     p_permissions = None\<rparr>]\<rparr>)"
proof -
  let ?upd = "\<lambda>x. x\<lparr>participants :=
                addToSet \<lparr>p_id = u, p_type = ut, p_role = r, p_joined_at = t,
                          p_permissions = None\<rparr> (participants x)\<rparr>"
  have s1: "snd (add_chat_participant s t chat_id u ut r) =
              s\<lparr>chat_collection := update_one (\<lambda>x. c_id x = c_id c) ?upd (chat_collection s)\<rparr>"
    using assms(1) by (simp add: add_chat_participant_def Let_def)
  show "invite_collection (snd (add_chat_participant s t chat_id u ut r)) = invite_collection s"
    by (simp add: s1)
  show "find_one (\<lambda>x. c_id x = c_id c)
           (chat_collection (snd (add_chat_participant s t chat_id u ut r))) =
         Some (c\<lparr>participants := participants c @
                   [\<lparr>p_id = u, p_type = ut, p_role = r, p_joined_at = t,
                     p_permissions = None\<rparr>]\<rparr>)"
    using find_one_update_one [OF assms(2), of ?upd] new_participant_fresh [OF assms(3)]
    by (simp add: s1)
qed

lemma mark_invite_used_store:
  assumes "find_one (\<lambda>i. code i = invite_code) (invite_collection s) = Some iv"
    and "distinct (map code (invite_collection s))"
  shows "chat_collection (snd (mark_invite_used s t invite_code u)) = chat_collection s"
    and "find_one (\<lambda>i. code i = invite_code)
           (invite_collection (snd (mark_invite_used s t invite_code u))) =
         Some (iv\<lparr>is_active := False, used_by := Some u, used_at := Some t\<rparr>)"
    and "get_invite (snd (mark_invite_used s t invite_code u)) t' invite_code = None"
proof -
  let ?upd = "\<lambda>i. i\<lparr>is_active := False, used_by := Some u, used_at := Some t\<rparr>"
  have s2: "snd (mark_invite_used s t invite_code u) =
              s\<lparr>invite_collection :=
                  update_one (\<lambda>i. code i = invite_code) ?upd (invite_collection s)\<rparr>"
    by (simp add: mark_invite_used_def Let_def)
  have code_iv: "code iv = invite_code"
    using find_one_Some [OF assms(1)] by simp
  show "chat_collection (snd (mark_invite_used s t invite_code u)) = chat_collection s"
    by (simp add: s2)
  show "find_one (\<lambda>i. code i = invite_code)
           (invite_collection (snd (mark_invite_used s t invite_code u))) =
         Some (iv\<lparr>is_active := False, used_by := Some u, used_at := Some t\<rparr>)"
    using find_one_update_one [OF assms(1), of ?upd] code_iv by (simp add: s2)
  have "\<forall>y\<in>set (update_one (\<lambda>i. code i = invite_code) ?upd (invite_collection s)).
          code y = invite_code \<longrightarrow> y = ?upd iv"
    by (rule update_one_by_key_others [OF assms(2,1)]) (simp add: code_iv)
  then show "get_invite (snd (mark_invite_used s t invite_code u)) t' invite_code = None"
    by (auto simp: get_invite_def s2 find_one_None)
qed


lemma get_invite_None:
  "(get_invite s t invite_code = None) =
     (\<not> list_ex (\<lambda>i. code i = invite_code \<and> is_active i \<and> t < expires_at i)
          (invite_collection s))"
  by (simp add: get_invite_def find_one_None list_ex_iff)

lemma join_refused_not_found:
  assumes "\<not> list_ex (\<lambda>i. code i = invite_code \<and> is_active i \<and> t_get < expires_at i)
               (invite_collection s)"
  shows "route_join_group_via_invite s t_get t_check t_add t_mark invite_code u =
           (Inl (HTTPException 404), s)"
  using assms get_invite_None [of s t_get invite_code]
  by (simp add: route_join_group_via_invite_def)

lemma join_refused_expired:
  assumes "get_invite s t_get invite_code = Some iv" and "expires_at iv < t_check"
  shows "route_join_group_via_invite s t_get t_check t_add t_mark invite_code u =
           (Inl (HTTPException 400), s)"
  using assms by (simp add: route_join_group_via_invite_def)

lemma join_accepted_only_if:
  assumes "route_join_group_via_invite s t_get t_check t_add t_mark invite_code u =
             (Inr response, s')"
  shows "list_ex (\<lambda>i. code i = invite_code \<and> is_active i \<and> t_get < expires_at i \<and>
                      t_check \<le> expires_at i) (invite_collection s)"
proof (cases "get_invite s t_get invite_code")
  case None
  with assms show ?thesis by (simp add: route_join_group_via_invite_def)
next
  case (Some iv)
  with assms have "\<not> expires_at iv < t_check"
    by (auto simp: route_join_group_via_invite_def split: if_splits)
  moreover have "iv \<in> set (invite_collection s)" "code iv = invite_code" "is_active iv"
    "t_get < expires_at iv"
    using find_one_Some [OF Some [unfolded get_invite_def]] by simp_all
  ultimately show ?thesis
    by (auto simp: list_ex_iff)
qed

lemma join_already_member:
  assumes "get_invite s t_get invite_code = Some iv" and "\<not> expires_at iv < t_check"
    and "get_chat s (i_chat_id iv) = Some c" and "is_participant c u"
  shows "route_join_group_via_invite s t_get t_check t_add t_mark invite_code u =
           (Inr (already_member (length (participants c))), s)"
  using assms by (simp add: route_join_group_via_invite_def)

lemma join_success:
  assumes "get_invite s t_get invite_code = Some iv"
    and "\<not> expires_at iv < t_check"
    and "get_chat s (i_chat_id iv) = Some c"
    and "\<not> is_participant c u"
    and "ObjectId (i_chat_id iv) = Inr (c_id c)"
    and "distinct (map c_id (chat_collection s))"
    and "distinct (map code (invite_collection s))"
  shows "\<exists>s1 s2.
    s1 = snd (add_chat_participant s t_add (i_chat_id iv) u ''user'' ''member'') \<and>
    s2 = snd (mark_invite_used s1 t_mark invite_code u) \<and>
    route_join_group_via_invite s t_get t_check t_add t_mark invite_code u =
      (Inr (joined (length (participants c) + 1)), s2) \<and>
    find_one (\<lambda>x. c_id x = c_id c) (chat_collection s1) =
      Some (c\<lparr>participants := participants c @
                [\<lparr>p_id = u, p_type = ''user'', p_role = ''member'', p_joined_at = t_add,
                  p_permissions = None\<rparr>]\<rparr>) \<and>
    get_invite s1 t_get invite_code = Some iv \<and>
    find_one (\<lambda>x. c_id x = c_id c) (chat_collection s2) =
      Some (c\<lparr>participants := participants c @
                [\<lparr>p_id = u, p_type = ''user'', p_role = ''member'', p_joined_at = t_add,
                  p_permissions = None\<rparr>]\<rparr>) \<and>
    find_one (\<lambda>i. code i = invite_code) (invite_collection s2) =
      Some (iv\<lparr>is_active := False, used_by := Some u, used_at := Some t_mark\<rparr>) \<and>
    (\<forall>t1 t2 t3 t4 u'.
       route_join_group_via_invite s2 t1 t2 t3 t4 invite_code u' =
         (Inl (HTTPException 404), s2))"
proof -
  let ?s1 = "snd (add_chat_participant s t_add (i_chat_id iv) u ''user'' ''member'')"
  let ?s2 = "snd (mark_invite_used ?s1 t_mark invite_code u)"
  have c_found: "find_one (\<lambda>x. c_id x = c_id c) (chat_collection s) = Some c"
    by (rule find_one_by_key [OF assms(6) get_chat_Some [OF assms(3)]])
  have iv_in: "iv \<in> set (invite_collection s)" and iv_code: "code iv = invite_code"
    using find_one_Some [OF assms(1) [unfolded get_invite_def]] by simp_all
  have iv_found: "find_one (\<lambda>i. code i = invite_code) (invite_collection s) = Some iv"
    using find_one_by_key [OF assms(7) iv_in] by (simp add: iv_code)
  note add = add_chat_participant_store [OF assms(5) c_found assms(4),
      of t_add "''user''" "''member''"]
  have inv1: "invite_collection ?s1 = invite_collection s"
    by (rule add(1))
  have iv_found1: "find_one (\<lambda>i. code i = invite_code) (invite_collection ?s1) = Some iv"
    by (simp only: inv1 iv_found)
  have dist1: "distinct (map code (invite_collection ?s1))"
    by (simp only: inv1 assms(7))
  note mark = mark_invite_used_store [OF iv_found1 dist1, of t_mark u]
  have route: "route_join_group_via_invite s t_get t_check t_add t_mark invite_code u =
      (Inr (joined (length (participants c) + 1)), ?s2)"
    using assms(1,2,3,4) by (simp add: route_join_group_via_invite_def Let_def)
  have still: "get_invite ?s1 t_get invite_code = Some iv"
    using assms(1) by (simp add: get_invite_def inv1)
  have chat2: "find_one (\<lambda>x. c_id x = c_id c) (chat_collection ?s2) =
      Some (c\<lparr>participants := participants c @
                [\<lparr>p_id = u, p_type = ''user'', p_role = ''member'', p_joined_at = t_add,
                  p_permissions = None\<rparr>]\<rparr>)"
    by (simp only: mark(1) add(2))
  have gone: "route_join_group_via_invite ?s2 t1 t2 t3 t4 invite_code u' =
                (Inl (HTTPException 404), ?s2)" for t1 t2 t3 t4 u'
    by (simp add: route_join_group_via_invite_def mark(3))
  show ?thesis
    using route add(2) still chat2 mark(2) gone by blast
qed

text \<open>
  C2, amended. In a store whose chat ids and whose invite codes are unique:
  a redemption is refused with status 404 when no invite with the code is active with
  its expiry after the time of the lookup, and with status 400 when the invite found has
  expired by the time of the handler's own test; so a redemption is accepted only for
  an invite that is active and unexpired. A caller who is a participant already is
  answered \<open>already_member\<close> and nothing changes. For a caller who is not, and an
  invite whose \<open>chat_id\<close> is the primary id of its chat, a redemption that runs alone
  is two store updates: the first appends the user as \<open>member\<close> to the participants and
  leaves the invite as it was, still retrievable; the second sets the invite's
  \<open>is_active\<close> to false and records \<open>used_by\<close> and \<open>used_at\<close>. The handler answers
  \<open>joined\<close>, and in the store it leaves every further redemption of that code is
  answered with status 404.
\<close>

theorem join_via_invite_two_updates:
  assumes "distinct (map c_id (chat_collection s))"
    and "distinct (map code (invite_collection s))"
  shows
    "(\<not> list_ex (\<lambda>i. code i = invite_code \<and> is_active i \<and> t_get < expires_at i)
          (invite_collection s) \<longrightarrow>
        route_join_group_via_invite s t_get t_check t_add t_mark invite_code u =
          (Inl (HTTPException 404), s)) \<and>
     (\<forall>iv. get_invite s t_get invite_code = Some iv \<and> expires_at iv < t_check \<longrightarrow>
        route_join_group_via_invite s t_get t_check t_add t_mark invite_code u =
          (Inl (HTTPException 400), s)) \<and>
     (\<forall>response s'.
        route_join_group_via_invite s t_get t_check t_add t_mark invite_code u =
          (Inr response, s') \<longrightarrow>
        list_ex (\<lambda>i. code i = invite_code \<and> is_active i \<and> t_get < expires_at i \<and>
                     t_check \<le> expires_at i) (invite_collection s)) \<and>
     (\<forall>iv c. get_invite s t_get invite_code = Some iv \<and> \<not> expires_at iv < t_check \<and>
        get_chat s (i_chat_id iv) = Some c \<and> is_participant c u \<longrightarrow>
        route_join_group_via_invite s t_get t_check t_add t_mark invite_code u =
          (Inr (already_member (length (participants c))), s)) \<and>
     (\<forall>iv c. get_invite s t_get invite_code = Some iv \<and> \<not> expires_at iv < t_check \<and>
        get_chat s (i_chat_id iv) = Some c \<and> \<not> is_participant c u \<and>
        ObjectId (i_chat_id iv) = Inr (c_id c) \<longrightarrow>
        (\<exists>s1 s2.
           s1 = snd (add_chat_participant s t_add (i_chat_id iv) u ''user'' ''member'') \<and>
           s2 = snd (mark_invite_used s1 t_mark invite_code u) \<and>
           route_join_group_via_invite s t_get t_check t_add t_mark invite_code u =
             (Inr (joined (length (participants c) + 1)), s2) \<and>
           find_one (\<lambda>x. c_id x = c_id c) (chat_collection s1) =
             Some (c\<lparr>participants := participants c @
                       [\<lparr>p_id = u, p_type = ''user'', p_role = ''member'',
                         p_joined_at = t_add, p_permissions = None\<rparr>]\<rparr>) \<and>
           get_invite s1 t_get invite_code = Some iv \<and>
           find_one (\<lambda>x. c_id x = c_id c) (chat_collection s2) =
             Some (c\<lparr>participants := participants c @
                       [\<lparr>p_id = u, p_type = ''user'', p_role = ''member'',
                         p_joined_at = t_add, p_permissions = None\<rparr>]\<rparr>) \<and>
           find_one (\<lambda>i. code i = invite_code) (invite_collection s2) =
             Some (iv\<lparr>is_active := False, used_by := Some u, used_at := Some t_mark\<rparr>) \<and>
           (\<forall>t1 t2 t3 t4 u'.
              route_join_group_via_invite s2 t1 t2 t3 t4 invite_code u' =
                (Inl (HTTPException 404), s2))))"
proof (intro conjI allI impI)
  assume "\<not> list_ex (\<lambda>i. code i = invite_code \<and> is_active i \<and> t_get < expires_at i)
              (invite_collection s)"
  then show "route_join_group_via_invite s t_get t_check t_add t_mark invite_code u =
          (Inl (HTTPException 404), s)"
    by (rule join_refused_not_found)
next
  fix iv
  assume "get_invite s t_get invite_code = Some iv \<and> expires_at iv < t_check"
  then show "route_join_group_via_invite s t_get t_check t_add t_mark invite_code u =
          (Inl (HTTPException 400), s)"
    using join_refused_expired by blast
next
  fix response s'
  assume "route_join_group_via_invite s t_get t_check t_add t_mark invite_code u =
          (Inr response, s')"
  then show "list_ex (\<lambda>i. code i = invite_code \<and> is_active i \<and> t_get < expires_at i \<and>
                     t_check \<le> expires_at i) (invite_collection s)"
    by (rule join_accepted_only_if)
next
  fix iv c
  assume "get_invite s t_get invite_code = Some iv \<and> \<not> expires_at iv < t_check \<and>
        get_chat s (i_chat_id iv) = Some c \<and> is_participant c u"
  then show "route_join_group_via_invite s t_get t_check t_add t_mark invite_code u =
          (Inr (already_member (length (participants c))), s)"
    using join_already_member by blast
next
  fix iv c
  assume h: "get_invite s t_get invite_code = Some iv \<and> \<not> expires_at iv < t_check \<and>
        get_chat s (i_chat_id iv) = Some c \<and> \<not> is_participant c u \<and>
        ObjectId (i_chat_id iv) = Inr (c_id c)"
  then have h1: "get_invite s t_get invite_code = Some iv" and h2: "\<not> expires_at iv < t_check"
    and h3: "get_chat s (i_chat_id iv) = Some c" and h4: "\<not> is_participant c u"
    and h5: "ObjectId (i_chat_id iv) = Inr (c_id c)"
    by simp_all
  show "\<exists>s1 s2.
           s1 = snd (add_chat_participant s t_add (i_chat_id iv) u ''user'' ''member'') \<and>
           s2 = snd (mark_invite_used s1 t_mark invite_code u) \<and>
           route_join_group_via_invite s t_get t_check t_add t_mark invite_code u =
             (Inr (joined (length (participants c) + 1)), s2) \<and>
           find_one (\<lambda>x. c_id x = c_id c) (chat_collection s1) =
             Some (c\<lparr>participants := participants c @
                       [\<lparr>p_id = u, p_type = ''user'', p_role = ''member'',
                         p_joined_at = t_add, p_permissions = None\<rparr>]\<rparr>) \<and>
           get_invite s1 t_get invite_code = Some iv \<and>
           find_one (\<lambda>x. c_id x = c_id c) (chat_collection s2) =
             Some (c\<lparr>participants := participants c @
                       [\<lparr>p_id = u, p_type = ''user'', p_role = ''member'',
                         p_joined_at = t_add, p_permissions = None\<rparr>]\<rparr>) \<and>
           find_one (\<lambda>i. code i = invite_code) (invite_collection s2) =
             Some (iv\<lparr>is_active := False, used_by := Some u, used_at := Some t_mark\<rparr>) \<and>
           (\<forall>t1 t2 t3 t4 u'.
              route_join_group_via_invite s2 t1 t2 t3 t4 invite_code u' =
                (Inl (HTTPException 404), s2))"
    by (rule join_success [OF h1 h2 h3 h4 h5 assms])
qed

theorem join_via_invite_two_updates_witness:
  "distinct (map c_id (chat_collection invite_store)) \<and>
   distinct (map code (invite_collection invite_store)) \<and>
   \<not> list_ex (\<lambda>i. code i = ''tok'' \<and> is_active i \<and> 200 < expires_at i)
       (invite_collection invite_store) \<and>
   route_join_group_via_invite invite_store 200 200 200 201 ''tok'' (IntId 5) =
     (Inl (HTTPException 404), invite_store) \<and>
   map_option expires_at (get_invite invite_store 99 ''tok'') = Some 100 \<and>
   route_join_group_via_invite invite_store 99 101 101 102 ''tok'' (IntId 5) =
     (Inl (HTTPException 400), invite_store) \<and>
   get_chat invite_store chat_G = Some group_chat_G \<and>
   is_participant group_chat_G (IntId 2) \<and>
   route_join_group_via_invite invite_store 50 50 50 51 ''tok'' (IntId 2) =
     (Inr (already_member 3), invite_store) \<and>
   \<not> is_participant group_chat_G (IntId 5) \<and>
   ObjectId chat_G = Inr (c_id group_chat_G) \<and>
   fst (route_join_group_via_invite invite_store 50 50 50 51 ''tok'' (IntId 5)) =
     Inr (joined 4) \<and>
   list_ex (\<lambda>i. code i = ''tok'' \<and> is_active i \<and> 50 < expires_at i \<and> 50 \<le> expires_at i)
     (invite_collection invite_store) \<and>
   route_join_group_via_invite
     (snd (route_join_group_via_invite invite_store 50 50 50 51 ''tok'' (IntId 5)))
     60 60 60 61 ''tok'' (IntId 6) =
     (Inl (HTTPException 404),
      snd (route_join_group_via_invite invite_store 50 50 50 51 ''tok'' (IntId 5)))"
proof -
  let ?iv = "\<lparr>code = ''tok'', i_chat_id = chat_G, creator_id = IntId 1, created_at = 0,
              expires_at = 100, is_active = True, used_by = None, used_at = None\<rparr>"
  have d1: "distinct (map c_id (chat_collection invite_store))"
    by (simp add: invite_store_def group_store_def)
  have d2: "distinct (map code (invite_collection invite_store))"
    by (simp add: invite_store_def)
  have found: "get_invite invite_store 50 ''tok'' = Some ?iv"
    "get_invite invite_store 99 ''tok'' = Some ?iv"
    by (simp_all add: get_invite_def invite_store_def find_one_def)
  have late: "\<not> list_ex (\<lambda>i. code i = ''tok'' \<and> is_active i \<and> 200 < expires_at i)
                 (invite_collection invite_store)"
    by (simp add: invite_store_def)
  have chat: "get_chat invite_store (i_chat_id ?iv) = Some group_chat_G"
    by (simp add: invite_store_def group_store_def group_chat_G_def handler_defs
        ObjectId_scenario)
  have in2: "is_participant group_chat_G (IntId 2)"
    by (simp add: group_chat_G_def handler_defs py_str_small)
  have out5: "\<not> is_participant group_chat_G (IntId 5)"
    by (simp add: group_chat_G_def handler_defs py_str_small str_int_more)
  have prim: "ObjectId (i_chat_id ?iv) = Inr (c_id group_chat_G)"
    by (simp add: ObjectId_scenario group_chat_G_def)
  have len: "length (participants group_chat_G) = 3"
    by (simp add: group_chat_G_def)
  note expired = join_via_invite_two_updates [OF d1 d2, of "''tok''" 200 200 200 201 "IntId 5"]
  note between = join_via_invite_two_updates [OF d1 d2, of "''tok''" 99 101 101 102 "IntId 5"]
  note member = join_via_invite_two_updates [OF d1 d2, of "''tok''" 50 50 50 51 "IntId 2"]
  note fresh = join_via_invite_two_updates [OF d1 d2, of "''tok''" 50 50 50 51 "IntId 5"]
  have r1: "route_join_group_via_invite invite_store 200 200 200 201 ''tok'' (IntId 5) =
     (Inl (HTTPException 404), invite_store)"
    using conjunct1 [OF expired] late by (rule mp)
  have r2: "route_join_group_via_invite invite_store 99 101 101 102 ''tok'' (IntId 5) =
     (Inl (HTTPException 400), invite_store)"
    using spec [OF conjunct1 [OF conjunct2 [OF between]], of ?iv] found(2) by simp
  have r3: "route_join_group_via_invite invite_store 50 50 50 51 ''tok'' (IntId 2) =
     (Inr (already_member 3), invite_store)"
    using spec [OF spec [OF conjunct1 [OF conjunct2 [OF conjunct2 [OF conjunct2 [OF member]]]],
          of ?iv], of group_chat_G] found(1) chat in2 len
    by simp
  from spec [OF spec [OF conjunct2 [OF conjunct2 [OF conjunct2 [OF conjunct2 [OF fresh]]]],
        of ?iv], of group_chat_G] found(1) chat out5 prim
  obtain s2 where
    route: "route_join_group_via_invite invite_store 50 50 50 51 ''tok'' (IntId 5) =
              (Inr (joined (length (participants group_chat_G) + 1)), s2)"
    and gone: "\<forall>t1 t2 t3 t4 u'.
       route_join_group_via_invite s2 t1 t2 t3 t4 ''tok'' u' = (Inl (HTTPException 404), s2)"
    by auto
  have r4: "fst (route_join_group_via_invite invite_store 50 50 50 51 ''tok'' (IntId 5)) =
     Inr (joined 4)"
    by (simp add: route len)
  have r5: "list_ex (\<lambda>i. code i = ''tok'' \<and> is_active i \<and> 50 < expires_at i \<and>
                        50 \<le> expires_at i) (invite_collection invite_store)"
    using conjunct1 [OF conjunct2 [OF conjunct2 [OF fresh]]] route by blast
  have r6: "route_join_group_via_invite
     (snd (route_join_group_via_invite invite_store 50 50 50 51 ''tok'' (IntId 5)))
     60 60 60 61 ''tok'' (IntId 6) =
     (Inl (HTTPException 404),
      snd (route_join_group_via_invite invite_store 50 50 50 51 ''tok'' (IntId 5)))"
    using gone by (simp add: route)
  have g1: "map_option expires_at (get_invite invite_store 99 ''tok'') = Some 100"
    by (simp add: found(2))
  have g2: "get_chat invite_store chat_G = Some group_chat_G"
    using chat by simp
  have g3: "ObjectId chat_G = Inr (c_id group_chat_G)"
    using prim by simp
  show ?thesis
    by (intro conjI d1 d2 late r1 g1 r2 g2 in2 r3 out5 g3 r4 r5 r6)
qed

text \<open>
  Outside the scope of the statement above: for an invite issued on the secondary id of
  the chat, \<open>add_chat_participant\<close> looks for a chat with that primary id and finds
  none, so the handler answers \<open>joined\<close> and uses the invite up without adding anyone.
\<close>

lemma join_on_secondary_id:
  "(case route_join_group_via_invite alias_invite_store 50 50 50 51 ''tok'' (IntId 5) of
      (response, s') \<Rightarrow>
        response = Inr (joined 4) \<and>
        map (map p_id) (map participants (chat_collection s')) =
          [[IntId 1, IntId 2, IntId 3]] \<and>
        map is_active (invite_collection s') = [False])"
  by (simp add: route_join_group_via_invite_def alias_invite_store_def group_store_def
      group_chat_G_def get_invite_def handler_defs ObjectId_scenario ObjectId_alias_G
      chat_G_not_alias_G py_str_small str_int_more add_chat_participant_def mark_invite_used_def Let_def)


end
